theory Spec2Isabelle
  imports Main
begin

section \<open>Go strings, UTF-8 decoding and the regular expressions of cmd/create.go\<close>

text \<open>
  A Go string is a sequence of bytes; \<open>len\<close> counts bytes. It is modelled as
  \<^typ>\<open>string\<close>, whose characters are bytes. The \<open>regexp\<close> package reads its
  input rune by rune with \<open>utf8.DecodeRuneInString\<close>: a byte below 0x80 is itself,
  a well-formed multi-byte sequence is one rune, and every byte of an ill-formed
  sequence is the rune U+FFFD of width one. A rune is a \<^typ>\<open>nat\<close>; the masks and
  shifts of the decoder are written as \<open>mod\<close> and multiplication.
\<close>

type_synonym rune = nat

definition RuneError :: rune where
  "RuneError = 0xFFFD"

definition firstSize :: "nat \<Rightarrow> nat" where
  "firstSize b =
     (if 0xC2 \<le> b \<and> b \<le> 0xDF then 2
      else if 0xE0 \<le> b \<and> b \<le> 0xEF then 3
      else if 0xF0 \<le> b \<and> b \<le> 0xF4 then 4
      else 1)"

definition acceptLo :: "nat \<Rightarrow> nat" where
  "acceptLo b = (if b = 0xE0 then 0xA0 else if b = 0xF0 then 0x90 else 0x80)"

definition acceptHi :: "nat \<Rightarrow> nat" where
  "acceptHi b = (if b = 0xED then 0x9F else if b = 0xF4 then 0x8F else 0xBF)"

definition DecodeRuneInString :: "string \<Rightarrow> rune \<times> nat" where
  "DecodeRuneInString s =
     (case s of
        [] \<Rightarrow> (RuneError, 0)
      | c0 # _ \<Rightarrow>
          let s0 = (of_char c0 :: nat); sz = firstSize s0 in
          if s0 < 0x80 then (s0, 1)
          else if sz = 1 then (RuneError, 1)
          else if length s < sz then (RuneError, 1)
          else
            let s1 = (of_char (s ! 1) :: nat) in
            if s1 < acceptLo s0 \<or> acceptHi s0 < s1 then (RuneError, 1)
            else if sz \<le> 2 then ((s0 mod 32) * 64 + s1 mod 64, 2)
            else
              let s2 = (of_char (s ! 2) :: nat) in
              if s2 < 0x80 \<or> 0xBF < s2 then (RuneError, 1)
              else if sz \<le> 3 then ((s0 mod 16) * 4096 + (s1 mod 64) * 64 + s2 mod 64, 3)
              else
                let s3 = (of_char (s ! 3) :: nat) in
                if s3 < 0x80 \<or> 0xBF < s3 then (RuneError, 1)
                else ((s0 mod 8) * 262144 + (s1 mod 64) * 4096 + (s2 mod 64) * 64
                        + s3 mod 64, 4))"

lemma DecodeRuneInString_width:
  assumes "s \<noteq> []"
  shows "1 \<le> snd (DecodeRuneInString s) \<and> snd (DecodeRuneInString s) \<le> length s"
proof (cases s)
  case Nil
  with assms show ?thesis by simp
next
  case (Cons c0 t)
  have "snd (DecodeRuneInString s) = 1
        \<or> (snd (DecodeRuneInString s) = firstSize (of_char c0)
             \<and> \<not> length s < firstSize (of_char c0))"
    unfolding DecodeRuneInString_def Let_def Cons list.case
    by (simp only: split: if_split) (simp add: firstSize_def)
  moreover have "1 \<le> firstSize (of_char c0)"
    by (simp add: firstSize_def)
  ultimately show ?thesis using Cons by auto
qed

function runes :: "string \<Rightarrow> rune list" where
  "runes s =
     (if s = [] then []
      else fst (DecodeRuneInString s) # runes (drop (snd (DecodeRuneInString s)) s))"
  by pat_completeness auto
termination
proof (relation "measure length")
  show "wf (measure length)" by simp
next
  fix s :: string
  assume "s \<noteq> []"
  then show "(drop (snd (DecodeRuneInString s)) s, s) \<in> measure length"
    using DecodeRuneInString_width [of s] by simp
qed

function ReplaceAllClass :: "(rune \<Rightarrow> bool) \<Rightarrow> string \<Rightarrow> string \<Rightarrow> string" where
  "ReplaceAllClass cls src repl =
     (if src = [] then []
      else (if cls (fst (DecodeRuneInString src)) then repl
            else take (snd (DecodeRuneInString src)) src)
           @ ReplaceAllClass cls (drop (snd (DecodeRuneInString src)) src) repl)"
  by pat_completeness auto
termination
proof (relation "measure (\<lambda>(cls, src, repl). length src)")
  show "wf (measure (\<lambda>(cls :: rune \<Rightarrow> bool, src :: string, repl :: string). length src))"
    by simp
next
  fix cls :: "rune \<Rightarrow> bool" and src repl :: string
  assume "src \<noteq> []"
  then show "((cls, drop (snd (DecodeRuneInString src)) src, repl), cls, src, repl)
               \<in> measure (\<lambda>(cls, src, repl). length src)"
    using DecodeRuneInString_width [of src] by simp
qed

declare runes.simps [simp del] ReplaceAllClass.simps [simp del]

definition invalidChars :: "rune \<Rightarrow> bool" where
  "invalidChars r =
     (\<not> ((0x61 \<le> r \<and> r \<le> 0x7A) \<or> (0x41 \<le> r \<and> r \<le> 0x5A) \<or> (0x30 \<le> r \<and> r \<le> 0x39)
          \<or> r = 0x5F \<or> r = 0x2D))"

definition SanitizeBranchName :: "string \<Rightarrow> string" where
  "SanitizeBranchName name = ReplaceAllClass invalidChars name ''_''"



lemma mod_window:
  fixes a :: nat
  assumes "q * m \<le> a" and "a < q * m + m"
  shows "a mod m = a - q * m"
proof -
  have "a = (a - q * m) + q * m" using assms by simp
  then have "a mod m = ((a - q * m) + q * m) mod m" by simp
  also have "\<dots> = (a - q * m) mod m" by (rule mod_mult_self1)
  also have "\<dots> = a - q * m" using assms by (intro mod_less) simp
  finally show ?thesis .
qed

lemma two_byte_rune:
  fixes a b :: nat
  assumes "0xC2 \<le> a" and "a \<le> 0xDF"
  shows "0x80 \<le> (a mod 32) * 64 + b"
proof -
  have "a mod 32 = a - 6 * 32" using assms by (intro mod_window) simp_all
  then show ?thesis using assms by simp
qed

lemma three_byte_rune:
  fixes a b c :: nat
  assumes "0xE0 \<le> a" and "a \<le> 0xEF" and "\<not> b < acceptLo a" and "b \<le> 0xBF"
  shows "0x80 \<le> (a mod 16) * 4096 + (b mod 64) * 64 + c"
proof (cases "a = 0xE0")
  case True
  then have "0xA0 \<le> b" using assms(3) by (simp add: acceptLo_def)
  then have "b mod 64 = b - 2 * 64" using assms(4) by (intro mod_window) simp_all
  then show ?thesis using \<open>0xA0 \<le> b\<close> by simp
next
  case False
  have "a mod 16 = a - 14 * 16" using assms by (intro mod_window) simp_all
  then show ?thesis using False assms(1) by simp
qed

lemma four_byte_rune:
  fixes a b c :: nat
  assumes "0xF0 \<le> a" and "a \<le> 0xF4" and "\<not> b < acceptLo a" and "b \<le> 0xBF"
  shows "0x80 \<le> (a mod 8) * 262144 + (b mod 64) * 4096 + c"
proof (cases "a = 0xF0")
  case True
  then have "0x90 \<le> b" using assms(3) by (simp add: acceptLo_def)
  then have "b mod 64 = b - 2 * 64" using assms(4) by (intro mod_window) simp_all
  then show ?thesis using \<open>0x90 \<le> b\<close> by simp
next
  case False
  have "a mod 8 = a - 30 * 8" using assms by (intro mod_window) simp_all
  then show ?thesis using False assms(1) by simp
qed

lemma DecodeRuneInString_ascii:
  "of_char c < (0x80 :: nat) \<Longrightarrow> DecodeRuneInString (c # t) = (of_char c, 1)"
  by (simp add: DecodeRuneInString_def Let_def)

lemma acceptHi_le: "acceptHi a \<le> 0xBF"
  by (simp add: acceptHi_def)

lemma DecodeRuneInString_multibyte:
  assumes "\<not> of_char c < (0x80 :: nat)"
  shows "0x80 \<le> fst (DecodeRuneInString (c # t))"
proof -
  let ?a = "of_char c :: nat"
  let ?s = "c # t"
  let ?b = "of_char (?s ! 1) :: nat"
  have e: "(0x80::nat) \<le> RuneError" by (simp add: RuneError_def)
  have "firstSize ?a = 1 \<or> firstSize ?a = 2 \<or> firstSize ?a = 3 \<or> firstSize ?a = 4"
    by (simp add: firstSize_def)
  then consider "firstSize ?a = 1" | "firstSize ?a = 2" | "firstSize ?a = 3" | "firstSize ?a = 4"
    by blast
  then show ?thesis
  proof cases
    case 1
    then show ?thesis using assms e by (simp add: DecodeRuneInString_def Let_def)
  next
    case 2
    then have "0xC2 \<le> ?a" "?a \<le> 0xDF" by (auto simp: firstSize_def split: if_splits)
    then have "0x80 \<le> (?a mod 32) * 64 + ?b mod 64" by (rule two_byte_rune)
    then show ?thesis using assms 2 e by (simp add: DecodeRuneInString_def Let_def)
  next
    case 3
    then have r: "0xE0 \<le> ?a" "?a \<le> 0xEF" by (auto simp: firstSize_def split: if_splits)
    have "\<not> (?b < acceptLo ?a \<or> acceptHi ?a < ?b)
            \<Longrightarrow> 0x80 \<le> (?a mod 16) * 4096 + (?b mod 64) * 64 + x" for x
      using three_byte_rune [OF r, of ?b x] acceptHi_le [of ?a] by simp
    then show ?thesis using assms 3 e by (simp add: DecodeRuneInString_def Let_def)
  next
    case 4
    then have r: "0xF0 \<le> ?a" "?a \<le> 0xF4" by (auto simp: firstSize_def split: if_splits)
    have "\<not> (?b < acceptLo ?a \<or> acceptHi ?a < ?b)
            \<Longrightarrow> 0x80 \<le> (?a mod 8) * 262144 + (?b mod 64) * 4096 + x" for x
      using four_byte_rune [OF r, of ?b x] acceptHi_le [of ?a] by simp
    then show ?thesis using assms 4 e by (simp add: DecodeRuneInString_def Let_def add.assoc)
  qed
qed

lemma invalidChars_ascii: "\<not> invalidChars r \<Longrightarrow> r < 0x80"
  by (auto simp: invalidChars_def)

definition sanitizeRune :: "rune \<Rightarrow> char" where
  "sanitizeRune r = (if invalidChars r then CHR ''_'' else char_of r)"

lemma ReplaceAllClass_Nil: "ReplaceAllClass cls [] repl = []"
  by (subst ReplaceAllClass.simps) simp

lemma runes_Nil: "runes [] = []"
  by (subst runes.simps) simp

lemma runes_Cons:
  "runes (c # t) = fst (DecodeRuneInString (c # t))
                     # runes (drop (snd (DecodeRuneInString (c # t))) (c # t))"
  by (subst runes.simps) simp

lemma ReplaceAllClass_Cons:
  "ReplaceAllClass cls (c # t) repl
     = (if cls (fst (DecodeRuneInString (c # t))) then repl
        else take (snd (DecodeRuneInString (c # t))) (c # t))
       @ ReplaceAllClass cls (drop (snd (DecodeRuneInString (c # t))) (c # t)) repl"
  by (subst ReplaceAllClass.simps) simp

lemma ReplaceAllClass_step:
  "ReplaceAllClass invalidChars (c # t) ''_''
     = sanitizeRune (fst (DecodeRuneInString (c # t)))
       # ReplaceAllClass invalidChars (drop (snd (DecodeRuneInString (c # t))) (c # t)) ''_''"
proof (cases "of_char c < (0x80 :: nat)")
  case True
  show ?thesis
    unfolding ReplaceAllClass_Cons DecodeRuneInString_ascii [OF True]
    by (simp add: sanitizeRune_def)
next
  case False
  have "0x80 \<le> fst (DecodeRuneInString (c # t))"
    by (rule DecodeRuneInString_multibyte [OF False])
  then have "invalidChars (fst (DecodeRuneInString (c # t)))"
    using invalidChars_ascii [of "fst (DecodeRuneInString (c # t))"] by auto
  then show ?thesis
    by (simp add: ReplaceAllClass_Cons sanitizeRune_def)
qed

lemma SanitizeBranchName_runes:
  "SanitizeBranchName s = map sanitizeRune (runes s)"
  unfolding SanitizeBranchName_def
proof (induction s rule: runes.induct)
  case (1 s)
  show ?case
  proof (cases s)
    case Nil
    then show ?thesis by (simp add: ReplaceAllClass_Nil runes_Nil)
  next
    case (Cons c t)
    then have "s \<noteq> []" by simp
    from "1" [OF this] show ?thesis
      unfolding Cons by (simp add: ReplaceAllClass_step runes_Cons)
  qed
qed

lemma sanitizeRune_valid: "\<not> invalidChars (of_char (sanitizeRune r))"
proof (cases "invalidChars r")
  case True
  then show ?thesis by (simp add: sanitizeRune_def invalidChars_def)
next
  case False
  then have "r < 0x80" by (rule invalidChars_ascii)
  then have "of_char (char_of r) = r" by simp
  with False show ?thesis by (simp add: sanitizeRune_def)
qed

lemma SanitizeBranchName_fixed:
  "\<forall>c \<in> set s. \<not> invalidChars (of_char c) \<Longrightarrow> SanitizeBranchName s = s"
  unfolding SanitizeBranchName_def
proof (induction s)
  case Nil
  show ?case by (simp add: ReplaceAllClass_Nil)
next
  case (Cons c t)
  then have a: "of_char c < (0x80::nat)" using invalidChars_ascii [of "of_char c"] by simp
  show ?case using Cons
    by (simp add: ReplaceAllClass_step DecodeRuneInString_ascii [OF a] sanitizeRune_def)
qed

lemma runes_ascii:
  "\<forall>c \<in> set s. of_char c < (0x80::nat) \<Longrightarrow> runes s = map of_char s"
proof (induction s)
  case Nil
  show ?case by (simp add: runes_Nil)
next
  case (Cons c t)
  then show ?case by (simp add: runes_Cons DecodeRuneInString_ascii)
qed

lemma length_runes_le: "length (runes s) \<le> length s"
proof (induction s rule: runes.induct)
  case (1 s)
  show ?case
  proof (cases s)
    case Nil
    then show ?thesis by (simp add: runes_Nil)
  next
    case (Cons c t)
    then have ne: "s \<noteq> []" by simp
    let ?n = "snd (DecodeRuneInString s)"
    have "length (runes s) = Suc (length (runes (drop ?n s)))"
      unfolding Cons by (simp add: runes_Cons)
    moreover have "length (runes (drop ?n s)) \<le> length s - ?n"
      using "1" [OF ne] by simp
    moreover have "1 \<le> ?n \<and> ?n \<le> length s"
      by (rule DecodeRuneInString_width [OF ne])
    ultimately show ?thesis by linarith
  qed
qed

text \<open>
  Claim C8, as amended. \<open>SanitizeBranchName\<close> maps the input rune by rune: a rune
  of the class \<open>[a-zA-Z0-9_-]\<close> stays as it is and every other rune, whatever the
  number of bytes that encode it, becomes the single byte \<open>_\<close>. So the result has
  one byte per rune of the input: it is never longer than the input, and as long as the
  input when the input is ASCII. Every byte of the result is in the class, and the
  function is idempotent.
\<close>

theorem SanitizeBranchName_spec:
  "length (SanitizeBranchName s) = length (runes s)
   \<and> length (SanitizeBranchName s) \<le> length s
   \<and> ((\<forall>c \<in> set s. of_char c < (0x80::nat)) \<longrightarrow> length (SanitizeBranchName s) = length s)
   \<and> (\<forall>c \<in> set (SanitizeBranchName s). \<not> invalidChars (of_char c))
   \<and> SanitizeBranchName s
        = map (\<lambda>r. if invalidChars r then CHR ''_'' else char_of r) (runes s)
   \<and> SanitizeBranchName (SanitizeBranchName s) = SanitizeBranchName s"
proof -
  have v: "\<forall>c \<in> set (SanitizeBranchName s). \<not> invalidChars (of_char c)"
    by (simp add: SanitizeBranchName_runes sanitizeRune_valid)
  have m: "sanitizeRune = (\<lambda>r. if invalidChars r then CHR ''_'' else char_of r)"
    by (rule ext) (simp add: sanitizeRune_def)
  show ?thesis
    using v SanitizeBranchName_fixed [OF v] length_runes_le [of s] runes_ascii [of s]
    by (simp add: SanitizeBranchName_runes m)
qed

text \<open>
  The claim as stated (the result has the length of the input) fails on a two-byte
  rune: \<open>len\<close> of the UTF-8 string for U+00E9 is 2, and the result is \<open>_\<close>.
\<close>

theorem SanitizeBranchName_length_counterexample:
  "length (SanitizeBranchName [CHR 0xC3, CHR 0xA9]) \<noteq> length [CHR 0xC3, CHR 0xA9]"
  by (simp add: SanitizeBranchName_def ReplaceAllClass_Cons ReplaceAllClass_Nil
        DecodeRuneInString_def firstSize_def acceptLo_def acceptHi_def invalidChars_def Let_def)

theorem SanitizeBranchName_spec_witness:
  "SanitizeBranchName ''fix/a b'' = ''fix_a_b''
   \<and> length (SanitizeBranchName ''fix/a b'') = length ''fix/a b''
   \<and> SanitizeBranchName (SanitizeBranchName ''fix/a b'') = ''fix_a_b''"
proof -
  have a: "\<forall>c \<in> set ''fix/a b''. of_char c < (0x80::nat)" by simp
  have e: "SanitizeBranchName ''fix/a b'' = ''fix_a_b''"
    by (simp add: SanitizeBranchName_def ReplaceAllClass_Cons ReplaceAllClass_Nil
          DecodeRuneInString_def Let_def invalidChars_def)
  have l: "length (SanitizeBranchName ''fix/a b'') = length ''fix/a b''"
    using SanitizeBranchName_spec [of "''fix/a b''"] a by blast
  have "SanitizeBranchName (SanitizeBranchName ''fix/a b'') = SanitizeBranchName ''fix/a b''"
    using SanitizeBranchName_spec [of "''fix/a b''"] by blast
  then have i: "SanitizeBranchName (SanitizeBranchName ''fix/a b'') = ''fix_a_b''"
    by (simp only: e)
  from e l i show ?thesis by blast
qed

section \<open>The create command and its collaborators\<close>

text \<open>
  The create command drives git, the worktree package, the file system and an
  interactive prompt. These collaborators are parameters of the model: a record of
  operations over a world \<open>'w\<close> that the model never inspects. A query returns a value
  and leaves the world alone; every other operation returns the next world with its
  result. A Go \<open>error\<close> result is an \<open>error option\<close>, \<open>None\<close> for \<open>nil\<close>.
  Console output (\<open>fmt.Printf\<close>, \<open>printSuccess\<close>) is not modelled.
\<close>

datatype error =
    External string
  | WorktreeDirExists string
  | OperationCancelled
  | FailedToDeleteBranch error
  | FailedToRemoveExisting error
  | PromptFailed error

datatype WorktreeType = Issue | PR | Local

datatype BranchAction = BranchActionOverwrite | BranchActionAttach | BranchActionCancel

datatype 'a outcome = Returned 'a | Panicked string

record WorktreeInfo =
  Type :: WorktreeType
  Owner :: string
  Repo :: string
  Number :: int
  BranchName :: string
  WorktreeName :: string

datatype call =
    CallExists string
  | CallGitQuiet "string list"
  | CallGit "string list"
  | CallSelect string "string list"
  | CallAttach string string
  | CallCreate string string string
  | CallRemoveAll string
  | CallParseArgument string
  | CallWorktreeExists string
  | CallGitOutputAt string "string list"
  | CallRemove string string string bool
  | CallConfirm string bool
  | CallGitQuietAt string "string list"
  | CallBranchDelete3 string string bool
  | CallCreatorCreate
  | CallCreatorCleanup

record 'w ops =
  config_GetWorktreeBase :: "'w \<Rightarrow> string"
  filepath_Join :: "string list \<Rightarrow> string"
  filepath_Abs :: "string \<Rightarrow> 'w \<Rightarrow> string"
  worktree_Exists :: "string \<Rightarrow> 'w \<Rightarrow> bool"
  git_RunQuiet :: "string list \<Rightarrow> 'w \<Rightarrow> error option"
  git_Command :: "string list \<Rightarrow> 'w \<Rightarrow> error option \<times> 'w"
  prompter_Select :: "string \<Rightarrow> string list \<Rightarrow> 'w \<Rightarrow> (error + int) \<times> 'w"
  worktree_Attach :: "string \<Rightarrow> string \<Rightarrow> 'w \<Rightarrow> error option \<times> 'w"
  worktree_Create :: "string \<Rightarrow> string \<Rightarrow> string \<Rightarrow> 'w \<Rightarrow> error option \<times> 'w"
  os_RemoveAll :: "string \<Rightarrow> 'w \<Rightarrow> 'w"

type_synonym 'w st = "'w \<times> call list"

definition ask :: "call \<Rightarrow> ('w \<Rightarrow> 'a) \<Rightarrow> 'w st \<Rightarrow> 'a \<times> 'w st" where
  "ask c q s = (q (fst s), (fst s, snd s @ [c]))"

definition act :: "call \<Rightarrow> ('w \<Rightarrow> 'a \<times> 'w) \<Rightarrow> 'w st \<Rightarrow> 'a \<times> 'w st" where
  "act c f s = (fst (f (fst s)), (snd (f (fst s)), snd s @ [c]))"

definition BranchDelete_args :: "string \<Rightarrow> bool \<Rightarrow> string list" where
  "BranchDelete_args branch force =
     (let args = [''branch'', ''-d''];
          args = (if force then args[1 := ''-D''] else args)
      in args @ [branch])"

definition BranchDelete :: "'w ops \<Rightarrow> string \<Rightarrow> bool \<Rightarrow> 'w st \<Rightarrow> error option \<times> 'w st" where
  "BranchDelete ops branch force =
     act (CallGit (BranchDelete_args branch force))
         (git_Command ops (BranchDelete_args branch force))"

definition BranchExists_args :: "string \<Rightarrow> string list" where
  "BranchExists_args branch = [''show-ref'', ''--verify'', ''--quiet'', ''refs/heads/'' @ branch]"

definition BranchExists :: "'w ops \<Rightarrow> string \<Rightarrow> 'w st \<Rightarrow> bool \<times> 'w st" where
  "BranchExists ops branch =
     ask (CallGitQuiet (BranchExists_args branch))
         (\<lambda>w. git_RunQuiet ops (BranchExists_args branch) w = None)"

definition branchPrompt :: "string \<Rightarrow> string" where
  "branchPrompt branch =
     ''Branch '' @ [CHR 0x27] @ branch @ [CHR 0x27]
       @ '' already exists. What would you like to do?''"

definition options :: "string list" where
  "options = [''Overwrite (delete and recreate)'', ''Attach (use existing branch)'', ''Cancel'']"

definition createWorktree_step3 ::
  "'w ops \<Rightarrow> string \<Rightarrow> WorktreeInfo \<Rightarrow> string \<Rightarrow> 'w st \<Rightarrow> error option \<times> 'w st" where
  "createWorktree_step3 ops worktreePath info startPoint s =
     (let (err, s1) = act (CallCreate worktreePath (BranchName info) startPoint)
                          (worktree_Create ops worktreePath (BranchName info) startPoint) s
      in case err of
           Some e \<Rightarrow>
             (let (ex, s2) = ask (CallExists worktreePath) (worktree_Exists ops worktreePath) s1;
                  s3 = (if ex
                        then snd (act (CallRemoveAll worktreePath)
                                      (\<lambda>w. ((), os_RemoveAll ops worktreePath w)) s2)
                        else s2)
              in (Some e, s3))
         | None \<Rightarrow> (None, s1))"

definition createWorktree ::
  "'w ops \<Rightarrow> bool \<Rightarrow> WorktreeInfo \<Rightarrow> string \<Rightarrow> 'w st \<Rightarrow> error option \<times> 'w st" where
  "createWorktree ops useExistingFlag info startPoint s =
     (let baseDir = config_GetWorktreeBase ops (fst s);
          worktreePath = filepath_Join ops [baseDir, Repo info, WorktreeName info];
          absPath = filepath_Abs ops worktreePath (fst s);
          (ex, s1) = ask (CallExists worktreePath) (worktree_Exists ops worktreePath) s
      in if ex then (Some (WorktreeDirExists absPath), s1)
         else
           let (bex, s2) = BranchExists ops (BranchName info) s1 in
           if bex then
             (if useExistingFlag then
                act (CallAttach worktreePath (BranchName info))
                    (worktree_Attach ops worktreePath (BranchName info)) s2
              else
                let (choice, s3) = act (CallSelect (branchPrompt (BranchName info)) options)
                                       (prompter_Select ops (branchPrompt (BranchName info)) options)
                                       s2
                in case choice of
                     Inl e \<Rightarrow> (Some OperationCancelled, s3)
                   | Inr c \<Rightarrow>
                       if c = 0 then
                         (let (err, s4) = BranchDelete ops (BranchName info) True s3
                          in case err of
                               Some e \<Rightarrow> (Some (FailedToDeleteBranch e), s4)
                             | None \<Rightarrow> createWorktree_step3 ops worktreePath info startPoint s4)
                       else if c = 1 then
                         act (CallAttach worktreePath (BranchName info))
                             (worktree_Attach ops worktreePath (BranchName info)) s3
                       else if c = 2 then (Some OperationCancelled, s3)
                       else createWorktree_step3 ops worktreePath info startPoint s3)
           else createWorktree_step3 ops worktreePath info startPoint s2)"

subsection \<open>The earlier create command of cmd/create.go\<close>

text \<open>
  \<open>src/cmd/create.go\<close> is an earlier \<open>runCreate\<close>, written against a \<open>Creator\<close>
  object of the worktree package and a \<open>git.BranchDelete\<close> that takes the repository
  path. \<open>'i\<close> is the worktree package's own \<open>WorktreeInfo\<close>. \<open>Creator.Create\<close> receives
  the branch check as a callback and may panic; the deferred \<open>recover\<close> cleans up and
  panics again.
\<close>

record ('w, 'i) ops0 = "'w ops" +
  worktree_ParseArgument :: "string \<Rightarrow> 'w \<Rightarrow> error + 'i"
  GetWorktreePath :: "'i \<Rightarrow> string \<Rightarrow> string"
  GetRepoPath :: "'i \<Rightarrow> string \<Rightarrow> string"
  worktree_WorktreeExists :: "string \<Rightarrow> 'w \<Rightarrow> bool"
  git_CommandOutputAt :: "string \<Rightarrow> string list \<Rightarrow> 'w \<Rightarrow> string \<times> error option"
  strings_TrimSpace :: "string \<Rightarrow> string"
  worktree_Remove :: "string \<Rightarrow> string \<Rightarrow> string \<Rightarrow> bool \<Rightarrow> 'w \<Rightarrow> error option \<times> 'w"
  prompter_Confirm :: "string \<Rightarrow> bool \<Rightarrow> 'w \<Rightarrow> (error + bool) \<times> 'w"
  git_RunQuietAt :: "string \<Rightarrow> string list \<Rightarrow> 'w \<Rightarrow> error option"
  git_BranchDelete3 :: "string \<Rightarrow> string \<Rightarrow> bool \<Rightarrow> 'w \<Rightarrow> error option \<times> 'w"
  Creator_Create ::
    "(string \<Rightarrow> 'w st \<Rightarrow> BranchAction \<times> 'w st) \<Rightarrow> 'i \<Rightarrow> 'w st
       \<Rightarrow> error option outcome \<times> 'w st"
  Creator_Cleanup :: "'w \<Rightarrow> 'w"

definition GetCurrentBranch ::
  "('w, 'i) ops0 \<Rightarrow> string \<Rightarrow> 'w st \<Rightarrow> (string \<times> error option) \<times> 'w st" where
  "GetCurrentBranch ops path =
     ask (CallGitOutputAt path [''rev-parse'', ''--abbrev-ref'', ''HEAD''])
         (\<lambda>w. let (out, err) = git_CommandOutputAt ops path
                                   [''rev-parse'', ''--abbrev-ref'', ''HEAD''] w
              in case err of
                   Some e \<Rightarrow> ([], Some e)
                 | None \<Rightarrow> (strings_TrimSpace ops out, None))"

definition branchExists :: "('w, 'i) ops0 \<Rightarrow> string \<Rightarrow> string \<Rightarrow> 'w st \<Rightarrow> bool \<times> 'w st" where
  "branchExists ops repoPath branch =
     ask (CallGitQuietAt repoPath (BranchExists_args branch))
         (\<lambda>w. git_RunQuietAt ops repoPath (BranchExists_args branch) w = None)"

definition options0 :: "string list" where
  "options0 = [''Overwrite (delete and recreate)'', ''Attach (use existing branch)'',
               ''No (cancel)'']"

definition runCreate_branchCheck ::
  "('w, 'i) ops0 \<Rightarrow> bool \<Rightarrow> bool \<Rightarrow> string \<Rightarrow> string \<Rightarrow> 'w st \<Rightarrow> BranchAction \<times> 'w st" where
  "runCreate_branchCheck ops forceFlag useExistingFlag repoPath branchName s =
     (let (bex, s1) = branchExists ops repoPath branchName s in
      if bex then
        (if forceFlag then
           (let (err, s2) = act (CallBranchDelete3 repoPath branchName True)
                                (git_BranchDelete3 ops repoPath branchName True) s1
            in case err of
                 Some e \<Rightarrow> (BranchActionCancel, s2)
               | None \<Rightarrow> (BranchActionOverwrite, s2))
         else if useExistingFlag then (BranchActionAttach, s1)
         else
           let (sel, s2) = act (CallSelect (branchPrompt branchName) options0)
                               (prompter_Select ops (branchPrompt branchName) options0) s1
           in case sel of
                Inl e \<Rightarrow> (BranchActionCancel, s2)
              | Inr selectedIndex \<Rightarrow>
                  let selected =
                        (if selectedIndex = 0 then BranchActionOverwrite
                         else if selectedIndex = 1 then BranchActionAttach
                         else if selectedIndex = 2 then BranchActionCancel
                         else BranchActionCancel)
                  in if selected = BranchActionOverwrite then
                       (let (err, s3) = act (CallBranchDelete3 repoPath branchName True)
                                            (git_BranchDelete3 ops repoPath branchName True) s2
                        in case err of
                             Some e \<Rightarrow> (BranchActionCancel, s3)
                           | None \<Rightarrow> (selected, s3))
                     else (selected, s2))
      else (BranchActionOverwrite, s1))"

definition confirmPrompt :: "string \<Rightarrow> string" where
  "confirmPrompt worktreePath = ''Worktree already exists at '' @ worktreePath @ ''. Overwrite?''"

definition runCreate_removeExisting ::
  "('w, 'i) ops0 \<Rightarrow> string \<Rightarrow> string \<Rightarrow> 'w st \<Rightarrow> error option \<times> 'w st" where
  "runCreate_removeExisting ops repoPath worktreePath s =
     (let (cur, s1) = GetCurrentBranch ops worktreePath s;
          branch = fst cur;
          (err, s2) = act (CallRemove repoPath worktreePath branch True)
                          (worktree_Remove ops repoPath worktreePath branch True) s1
      in case err of
           Some e \<Rightarrow> (Some (FailedToRemoveExisting e), s2)
         | None \<Rightarrow> (None, s2))"

definition runCreate_create ::
  "('w, 'i) ops0 \<Rightarrow> bool \<Rightarrow> bool \<Rightarrow> string \<Rightarrow> 'i \<Rightarrow> 'w st
     \<Rightarrow> error option outcome \<times> 'w st" where
  "runCreate_create ops forceFlag useExistingFlag repoPath info s =
     (let (r, s1) = Creator_Create ops
                      (runCreate_branchCheck ops forceFlag useExistingFlag repoPath)
                      info (fst s, snd s @ [CallCreatorCreate])
      in case r of
           Panicked p \<Rightarrow>
             (Panicked p,
              snd (act CallCreatorCleanup (\<lambda>w. ((), Creator_Cleanup ops w)) s1))
         | Returned (Some e) \<Rightarrow>
             (Returned (Some e),
              snd (act CallCreatorCleanup (\<lambda>w. ((), Creator_Cleanup ops w)) s1))
         | Returned None \<Rightarrow> (Returned None, s1))"

definition runCreate ::
  "('w, 'i) ops0 \<Rightarrow> bool \<Rightarrow> bool \<Rightarrow> string \<Rightarrow> 'w st \<Rightarrow> error option outcome \<times> 'w st" where
  "runCreate ops forceFlag useExistingFlag arg s =
     (let (parsed, s1) = ask (CallParseArgument arg) (worktree_ParseArgument ops arg) s in
      case parsed of
        Inl e \<Rightarrow> (Returned (Some e), s1)
      | Inr info \<Rightarrow>
          let baseDir = config_GetWorktreeBase ops (fst s1);
              worktreePath = GetWorktreePath ops info baseDir;
              repoPath = GetRepoPath ops info baseDir;
              (ex, s2) = ask (CallWorktreeExists worktreePath)
                             (worktree_WorktreeExists ops worktreePath) s1
          in if ex then
               (if forceFlag then
                  (let (err, s3) = runCreate_removeExisting ops repoPath worktreePath s2
                   in case err of
                        Some e \<Rightarrow> (Returned (Some e), s3)
                      | None \<Rightarrow> runCreate_create ops forceFlag useExistingFlag repoPath info s3)
                else
                  let (confirm, s3) = act (CallConfirm (confirmPrompt worktreePath) False)
                                          (prompter_Confirm ops (confirmPrompt worktreePath) False)
                                          s2
                  in case confirm of
                       Inl e \<Rightarrow> (Returned (Some (PromptFailed e)), s3)
                     | Inr yes \<Rightarrow>
                         if \<not> yes then (Returned None, s3)
                         else
                           (let (err, s4) = runCreate_removeExisting ops repoPath worktreePath s3
                            in case err of
                                 Some e \<Rightarrow> (Returned (Some e), s4)
                               | None \<Rightarrow>
                                   runCreate_create ops forceFlag useExistingFlag repoPath info s4))
             else runCreate_create ops forceFlag useExistingFlag repoPath info s2)"

definition worktreePathOf :: "'w ops \<Rightarrow> WorktreeInfo \<Rightarrow> 'w \<Rightarrow> string" where
  "worktreePathOf ops info w =
     filepath_Join ops [config_GetWorktreeBase ops w, Repo info, WorktreeName info]"

lemmas create_defs =
  createWorktree_def createWorktree_step3_def worktreePathOf_def BranchExists_def
  BranchDelete_def ask_def act_def Let_def split_def

lemma BranchDelete_args_eq:
  "BranchDelete_args branch force = [''branch'', if force then ''-D'' else ''-d'', branch]"
  by (simp add: BranchDelete_args_def)

lemma createWorktree_existing:
  assumes "worktree_Exists ops (worktreePathOf ops info w) w"
  shows "createWorktree ops useExistingFlag info startPoint (w, l)
         = (Some (WorktreeDirExists (filepath_Abs ops (worktreePathOf ops info w) w)),
            (w, l @ [CallExists (worktreePathOf ops info w)]))"
  using assms by (simp add: create_defs)

lemma createWorktree_no_conflict:
  assumes "\<not> worktree_Exists ops (worktreePathOf ops info w) w"
    and "git_RunQuiet ops (BranchExists_args (BranchName info)) w \<noteq> None"
  shows "createWorktree ops useExistingFlag info startPoint (w, l)
         = createWorktree_step3 ops (worktreePathOf ops info w) info startPoint
             (w, l @ [CallExists (worktreePathOf ops info w),
                      CallGitQuiet (BranchExists_args (BranchName info))])"
  using assms by (auto simp add: createWorktree_def worktreePathOf_def BranchExists_def ask_def
                                 Let_def split_def)

lemma createWorktree_step3_eq:
  "createWorktree_step3 ops p info startPoint (w, l)
   = (case worktree_Create ops p (BranchName info) startPoint w of
        (None, w') \<Rightarrow> (None, (w', l @ [CallCreate p (BranchName info) startPoint]))
      | (Some e, w') \<Rightarrow>
          (Some e,
           (if worktree_Exists ops p w' then os_RemoveAll ops p w' else w',
            l @ [CallCreate p (BranchName info) startPoint, CallExists p]
              @ (if worktree_Exists ops p w' then [CallRemoveAll p] else []))))"
  by (simp add: createWorktree_step3_def ask_def act_def Let_def split_def
           split: option.splits prod.splits)

lemma createWorktree_useExisting:
  assumes "\<not> worktree_Exists ops (worktreePathOf ops info w) w"
    and "git_RunQuiet ops (BranchExists_args (BranchName info)) w = None"
  shows "createWorktree ops True info startPoint (w, l)
         = (fst (worktree_Attach ops (worktreePathOf ops info w) (BranchName info) w),
            (snd (worktree_Attach ops (worktreePathOf ops info w) (BranchName info) w),
             l @ [CallExists (worktreePathOf ops info w),
                  CallGitQuiet (BranchExists_args (BranchName info)),
                  CallAttach (worktreePathOf ops info w) (BranchName info)]))"
  using assms by (simp add: create_defs)

definition afterPrompt :: "'w ops \<Rightarrow> WorktreeInfo \<Rightarrow> 'w \<Rightarrow> call list \<Rightarrow> call list" where
  "afterPrompt ops info w l =
     l @ [CallExists (worktreePathOf ops info w),
          CallGitQuiet (BranchExists_args (BranchName info)),
          CallSelect (branchPrompt (BranchName info)) options]"

lemma createWorktree_prompt:
  assumes "\<not> worktree_Exists ops (worktreePathOf ops info w) w"
    and "git_RunQuiet ops (BranchExists_args (BranchName info)) w = None"
    and "prompter_Select ops (branchPrompt (BranchName info)) options w = (choice, w1)"
  shows "createWorktree ops False info startPoint (w, l)
         = (case choice of
              Inl e \<Rightarrow> (Some OperationCancelled, (w1, afterPrompt ops info w l))
            | Inr c \<Rightarrow>
                if c = 0 then
                  (case git_Command ops [''branch'', ''-D'', BranchName info] w1 of
                     (Some e, w2) \<Rightarrow>
                       (Some (FailedToDeleteBranch e),
                        (w2, afterPrompt ops info w l @ [CallGit [''branch'', ''-D'', BranchName info]]))
                   | (None, w2) \<Rightarrow>
                       createWorktree_step3 ops (worktreePathOf ops info w) info startPoint
                         (w2, afterPrompt ops info w l @ [CallGit [''branch'', ''-D'', BranchName info]]))
                else if c = 1 then
                  (fst (worktree_Attach ops (worktreePathOf ops info w) (BranchName info) w1),
                   (snd (worktree_Attach ops (worktreePathOf ops info w) (BranchName info) w1),
                    afterPrompt ops info w l
                      @ [CallAttach (worktreePathOf ops info w) (BranchName info)]))
                else if c = 2 then (Some OperationCancelled, (w1, afterPrompt ops info w l))
                else createWorktree_step3 ops (worktreePathOf ops info w) info startPoint
                       (w1, afterPrompt ops info w l))"
  using assms
  by (simp add: createWorktree_def worktreePathOf_def BranchExists_def BranchDelete_def
        BranchDelete_args_eq afterPrompt_def ask_def act_def Let_def split_def
      split: sum.splits option.splits prod.splits)

lemma branchCheck_absent:
  assumes "git_RunQuietAt ops repoPath (BranchExists_args branchName) w \<noteq> None"
  shows "runCreate_branchCheck ops forceFlag useExistingFlag repoPath branchName (w, l)
         = (BranchActionOverwrite, (w, l @ [CallGitQuietAt repoPath (BranchExists_args branchName)]))"
  using assms by (auto simp add: runCreate_branchCheck_def branchExists_def ask_def Let_def split_def)

lemma branchCheck_force:
  assumes "git_RunQuietAt ops repoPath (BranchExists_args branchName) w = None"
  shows "runCreate_branchCheck ops True useExistingFlag repoPath branchName (w, l)
         = ((case fst (git_BranchDelete3 ops repoPath branchName True w) of
               None \<Rightarrow> BranchActionOverwrite
             | Some e \<Rightarrow> BranchActionCancel),
            (snd (git_BranchDelete3 ops repoPath branchName True w),
             l @ [CallGitQuietAt repoPath (BranchExists_args branchName),
                  CallBranchDelete3 repoPath branchName True]))"
  using assms
  by (simp add: runCreate_branchCheck_def branchExists_def ask_def act_def Let_def split_def
           split: option.splits)

lemma branchCheck_useExisting:
  assumes "git_RunQuietAt ops repoPath (BranchExists_args branchName) w = None"
  shows "runCreate_branchCheck ops False True repoPath branchName (w, l)
         = (BranchActionAttach, (w, l @ [CallGitQuietAt repoPath (BranchExists_args branchName)]))"
  using assms
  by (simp add: runCreate_branchCheck_def branchExists_def ask_def act_def Let_def split_def)

lemma branchCheck_prompt:
  assumes "git_RunQuietAt ops repoPath (BranchExists_args branchName) w = None"
    and "prompter_Select ops (branchPrompt branchName) options0 w = (sel, w1)"
  shows "runCreate_branchCheck ops False False repoPath branchName (w, l)
         = (case sel of
              Inl e \<Rightarrow>
                (BranchActionCancel,
                 (w1, l @ [CallGitQuietAt repoPath (BranchExists_args branchName),
                           CallSelect (branchPrompt branchName) options0]))
            | Inr i \<Rightarrow>
                if i = 0 then
                  ((case fst (git_BranchDelete3 ops repoPath branchName True w1) of
                      None \<Rightarrow> BranchActionOverwrite
                    | Some e \<Rightarrow> BranchActionCancel),
                   (snd (git_BranchDelete3 ops repoPath branchName True w1),
                    l @ [CallGitQuietAt repoPath (BranchExists_args branchName),
                         CallSelect (branchPrompt branchName) options0,
                         CallBranchDelete3 repoPath branchName True]))
                else
                  (if i = 1 then BranchActionAttach else BranchActionCancel,
                   (w1, l @ [CallGitQuietAt repoPath (BranchExists_args branchName),
                             CallSelect (branchPrompt branchName) options0])))"
  using assms
  by (simp add: runCreate_branchCheck_def branchExists_def ask_def act_def Let_def split_def
           split: option.splits sum.splits)

definition worktreePath0 :: "('w, 'i) ops0 \<Rightarrow> 'i \<Rightarrow> 'w \<Rightarrow> string" where
  "worktreePath0 ops info w = GetWorktreePath ops info (config_GetWorktreeBase ops w)"

definition repoPath0 :: "('w, 'i) ops0 \<Rightarrow> 'i \<Rightarrow> 'w \<Rightarrow> string" where
  "repoPath0 ops info w = GetRepoPath ops info (config_GetWorktreeBase ops w)"

lemma removeExisting_eq:
  "runCreate_removeExisting ops repoPath worktreePath (w, l)
   = ((case fst (worktree_Remove ops repoPath worktreePath
                   (fst (fst (GetCurrentBranch ops worktreePath (w, l)))) True w) of
         None \<Rightarrow> None
       | Some e \<Rightarrow> Some (FailedToRemoveExisting e)),
      (snd (worktree_Remove ops repoPath worktreePath
              (fst (fst (GetCurrentBranch ops worktreePath (w, l)))) True w),
       l @ [CallGitOutputAt worktreePath [''rev-parse'', ''--abbrev-ref'', ''HEAD''],
            CallRemove repoPath worktreePath
              (fst (fst (GetCurrentBranch ops worktreePath (w, l)))) True]))"
  by (simp add: runCreate_removeExisting_def GetCurrentBranch_def ask_def act_def Let_def
        split_def split: option.splits)

lemma runCreate_declined:
  assumes "worktree_ParseArgument ops arg w = Inr info"
    and "worktree_WorktreeExists ops (worktreePath0 ops info w) w"
    and "prompter_Confirm ops (confirmPrompt (worktreePath0 ops info w)) False w = (Inr False, w1)"
  shows "runCreate ops False useExistingFlag arg (w, l)
         = (Returned None,
            (w1, l @ [CallParseArgument arg, CallWorktreeExists (worktreePath0 ops info w),
                      CallConfirm (confirmPrompt (worktreePath0 ops info w)) False]))"
  using assms
  by (simp add: runCreate_def worktreePath0_def ask_def act_def Let_def split_def)

lemma runCreate_forced:
  assumes "worktree_ParseArgument ops arg w = Inr info"
    and "worktree_WorktreeExists ops (worktreePath0 ops info w) w"
  shows "runCreate ops True useExistingFlag arg (w, l)
         = (case runCreate_removeExisting ops (repoPath0 ops info w) (worktreePath0 ops info w)
                   (w, l @ [CallParseArgument arg,
                            CallWorktreeExists (worktreePath0 ops info w)]) of
              (Some e, s) \<Rightarrow> (Returned (Some e), s)
            | (None, s) \<Rightarrow> runCreate_create ops True useExistingFlag (repoPath0 ops info w) info s)"
  using assms
  by (simp add: runCreate_def worktreePath0_def repoPath0_def ask_def act_def Let_def split_def
           split: option.splits prod.splits)


lemma runCreate_create_eq:
  "runCreate_create ops forceFlag useExistingFlag repoPath info (w, l)
   = (case Creator_Create ops (runCreate_branchCheck ops forceFlag useExistingFlag repoPath) info
             (w, l @ [CallCreatorCreate]) of
        (Returned None, s) \<Rightarrow> (Returned None, s)
      | (Returned (Some e), s) \<Rightarrow>
          (Returned (Some e), (Creator_Cleanup ops (fst s), snd s @ [CallCreatorCleanup]))
      | (Panicked m, s) \<Rightarrow>
          (Panicked m, (Creator_Cleanup ops (fst s), snd s @ [CallCreatorCleanup])))"
  by (simp add: runCreate_create_def act_def Let_def split_def
           split: outcome.splits option.splits prod.splits)

text \<open>
  The branch name \<open>runCreate\<close> takes from \<open>git.GetCurrentBranch\<close>, whose error it
  drops.
\<close>

definition currentBranch :: "('w, 'i) ops0 \<Rightarrow> string \<Rightarrow> 'w \<Rightarrow> string" where
  "currentBranch ops path w = fst (fst (GetCurrentBranch ops path (w, [])))"

lemma removeExisting_create_eq:
  "(case runCreate_removeExisting ops repoPath worktreePath (w, l) of
      (Some e, s) \<Rightarrow> (Returned (Some e), s)
    | (None, s) \<Rightarrow> runCreate_create ops forceFlag useExistingFlag repoPath info s)
   = (case worktree_Remove ops repoPath worktreePath (currentBranch ops worktreePath w) True w of
        (Some e, w2) \<Rightarrow>
          (Returned (Some (FailedToRemoveExisting e)),
           (w2, l @ [CallGitOutputAt worktreePath [''rev-parse'', ''--abbrev-ref'', ''HEAD''],
                     CallRemove repoPath worktreePath (currentBranch ops worktreePath w) True]))
      | (None, w2) \<Rightarrow>
          (case Creator_Create ops (runCreate_branchCheck ops forceFlag useExistingFlag repoPath)
                  info
                  (w2, l @ [CallGitOutputAt worktreePath [''rev-parse'', ''--abbrev-ref'', ''HEAD''],
                            CallRemove repoPath worktreePath (currentBranch ops worktreePath w)
                              True,
                            CallCreatorCreate]) of
             (Returned None, s) \<Rightarrow> (Returned None, s)
           | (Returned (Some e), s) \<Rightarrow>
               (Returned (Some e), (Creator_Cleanup ops (fst s), snd s @ [CallCreatorCleanup]))
           | (Panicked m, s) \<Rightarrow>
               (Panicked m, (Creator_Cleanup ops (fst s), snd s @ [CallCreatorCleanup]))))"
  by (simp add: removeExisting_eq runCreate_create_eq currentBranch_def GetCurrentBranch_def
        ask_def split: prod.splits option.splits)

lemma runCreate_confirm:
  assumes "worktree_ParseArgument ops arg w = Inr info"
    and "worktree_WorktreeExists ops (worktreePath0 ops info w) w"
    and "prompter_Confirm ops (confirmPrompt (worktreePath0 ops info w)) False w = (answer, w1)"
  shows "runCreate ops False useExistingFlag arg (w, l)
         = (case answer of
              Inl e \<Rightarrow>
                (Returned (Some (PromptFailed e)),
                 (w1, l @ [CallParseArgument arg, CallWorktreeExists (worktreePath0 ops info w),
                           CallConfirm (confirmPrompt (worktreePath0 ops info w)) False]))
            | Inr yes \<Rightarrow>
                if \<not> yes then
                  (Returned None,
                   (w1, l @ [CallParseArgument arg, CallWorktreeExists (worktreePath0 ops info w),
                             CallConfirm (confirmPrompt (worktreePath0 ops info w)) False]))
                else
                  (case runCreate_removeExisting ops (repoPath0 ops info w)
                          (worktreePath0 ops info w)
                          (w1, l @ [CallParseArgument arg,
                                    CallWorktreeExists (worktreePath0 ops info w),
                                    CallConfirm (confirmPrompt (worktreePath0 ops info w)) False]) of
                     (Some e, s) \<Rightarrow> (Returned (Some e), s)
                   | (None, s) \<Rightarrow>
                       runCreate_create ops False useExistingFlag (repoPath0 ops info w) info s))"
  using assms
  by (simp add: runCreate_def worktreePath0_def repoPath0_def ask_def act_def Let_def split_def
           split: option.splits prod.splits sum.splits)


section \<open>A repository to run the create command on\<close>

text \<open>
  The theorems on \<open>createWorktree\<close> and \<open>runCreate\<close> hold for every choice of the
  operations. To run the commands on concrete inputs, the operations are instantiated on
  a small repository state: the branches, the branches with unmerged work, the
  registered worktree paths, the directories on disk, the branch checked out at each
  path, the answers the prompts will give,
  and the primitives that are made to fail.
\<close>

datatype prim = CreateBranch | DeleteBranch | RegisterWorktree | UnregisterWorktree

record repo =
  branches :: "string set"
  unmerged :: "string set"
  registered :: "string set"
  dirs :: "string set"
  head :: "string \<Rightarrow> string"
  selectAnswer :: "error + int"
  confirmAnswer :: "error + bool"
  failing :: "prim set"

text \<open>
  Modelled from the spec: \<open>createBranch(name, startPoint)\<close> of the RepositoryOps table;
  git is not under src/. It adds the branch, and fails without effect when the
  primitive is made to fail or the name is taken.
\<close>

definition createBranch :: "string \<Rightarrow> string \<Rightarrow> repo \<Rightarrow> error option \<times> repo" where
  "createBranch name startPoint w =
     (if CreateBranch \<in> failing w \<or> name \<in> branches w
      then (Some (External ''createBranch failed''), w)
      else (None, w\<lparr>branches := insert name (branches w)\<rparr>))"

text \<open>
  Modelled from the spec: \<open>deleteBranch(name, force)\<close> of the RepositoryOps table:
  the branch is removed; it is an error if the branch has unmerged work and
  \<open>force\<close> is false.
\<close>

definition deleteBranch :: "string \<Rightarrow> bool \<Rightarrow> repo \<Rightarrow> error option \<times> repo" where
  "deleteBranch name force w =
     (if DeleteBranch \<in> failing w \<or> name \<notin> branches w \<or> (name \<in> unmerged w \<and> \<not> force)
      then (Some (External ''deleteBranch failed''), w)
      else (None, w\<lparr>branches := branches w - {name}, unmerged := unmerged w - {name}\<rparr>))"

text \<open>
  Modelled from the spec: \<open>registerWorktree(path, branch)\<close> of the RepositoryOps table:
  it changes the file system and the metadata, and is an error if the path is occupied
  or the branch invalid.
\<close>

definition registerWorktree :: "string \<Rightarrow> string \<Rightarrow> repo \<Rightarrow> error option \<times> repo" where
  "registerWorktree path branch w =
     (if RegisterWorktree \<in> failing w \<or> path \<in> registered w \<or> path \<in> dirs w
         \<or> branch \<notin> branches w
      then (Some (External ''registerWorktree failed''), w)
      else (None, w\<lparr>registered := insert path (registered w), dirs := insert path (dirs w),
                     head := (head w)(path := branch)\<rparr>))"

text \<open>
  Modelled from the spec: \<open>unregisterWorktree(path, force)\<close> of the RepositoryOps table,
  followed by the deletion of the branch, which is what the earlier
  \<open>worktree.Remove(repoPath, path, branch, force)\<close> is given a branch for.
\<close>

definition unregisterWorktree :: "string \<Rightarrow> string \<Rightarrow> bool \<Rightarrow> repo \<Rightarrow> error option \<times> repo" where
  "unregisterWorktree path branch force w =
     (if UnregisterWorktree \<in> failing w
      then (Some (External ''unregisterWorktree failed''), w)
      else (None, w\<lparr>registered := registered w - {path}, dirs := dirs w - {path},
                     branches := branches w - {branch}\<rparr>))"

text \<open>
  Modelled from the spec: \<open>worktree.Create(path, branch, startPoint)\<close> is not under
  src/. Step 3 of the provisioner: create a new branch named \<open>branch\<close> from
  \<open>startPoint\<close>, then register a worktree at \<open>path\<close> pointing at that branch. What
  is undone after a failure is the caller's business.
\<close>

definition simCreate :: "string \<Rightarrow> string \<Rightarrow> string \<Rightarrow> repo \<Rightarrow> error option \<times> repo" where
  "simCreate path branch startPoint w =
     (case createBranch branch startPoint w of
        (Some e, w1) \<Rightarrow> (Some e, w1)
      | (None, w1) \<Rightarrow> registerWorktree path branch w1)"

text \<open>
  \<open>joinPath\<close> stands for \<open>filepath.Join\<close> of the Go library on the components used
  below, which are clean: it joins them with slashes. \<open>filepath.Join\<close> also cleans its
  result (empty and dot components, repeated slashes), which changes nothing on these.
\<close>

fun joinPath :: "string list \<Rightarrow> string" where
  "joinPath [] = []"
| "joinPath [x] = x"
| "joinPath (x # y # zs) = x @ ''/'' @ joinPath (y # zs)"

definition simShowRef :: "string list \<Rightarrow> repo \<Rightarrow> error option" where
  "simShowRef args w =
     (if \<exists>b \<in> branches w. args = BranchExists_args b then None
      else Some (External ''exit status 1''))"

definition simGit :: "string list \<Rightarrow> repo \<Rightarrow> error option \<times> repo" where
  "simGit args w =
     (case args of
        [c, flag, name] \<Rightarrow>
          if c = ''branch'' \<and> flag = ''-D'' then deleteBranch name True w
          else if c = ''branch'' \<and> flag = ''-d'' then deleteBranch name False w
          else (Some (External ''unknown command''), w)
      | _ \<Rightarrow> (Some (External ''unknown command''), w))"

definition sim :: "repo ops" where
  "sim = \<lparr> config_GetWorktreeBase = (\<lambda>w. ''/w''),
           filepath_Join = joinPath,
           filepath_Abs = (\<lambda>p w. p),
           worktree_Exists = (\<lambda>p w. p \<in> dirs w),
           git_RunQuiet = simShowRef,
           git_Command = simGit,
           prompter_Select = (\<lambda>p opts w. (selectAnswer w, w)),
           worktree_Attach = registerWorktree,
           worktree_Create = simCreate,
           os_RemoveAll = (\<lambda>p w. w\<lparr>dirs := dirs w - {p}\<rparr>) \<rparr>"

definition sim0 ::
  "((string \<Rightarrow> repo st \<Rightarrow> BranchAction \<times> repo st) \<Rightarrow> WorktreeInfo \<Rightarrow> repo st
      \<Rightarrow> error option outcome \<times> repo st)
   \<Rightarrow> (repo, WorktreeInfo) ops0" where
  "sim0 creator =
     ops.extend sim
       \<lparr> worktree_ParseArgument =
           (\<lambda>arg w. Inr \<lparr> Type = Local, Owner = [], Repo = ''r'', Number = 0,
                           BranchName = arg, WorktreeName = arg \<rparr>),
         GetWorktreePath = (\<lambda>info base. joinPath [base, Repo info, WorktreeName info]),
         GetRepoPath = (\<lambda>info base. joinPath [base, Repo info]),
         worktree_WorktreeExists = (\<lambda>p w. p \<in> dirs w),
         git_CommandOutputAt = (\<lambda>p args w. (head w p, None)),
         strings_TrimSpace = (\<lambda>s. s),
         worktree_Remove = (\<lambda>repoPath path branch force. unregisterWorktree path branch force),
         prompter_Confirm = (\<lambda>p d w. (confirmAnswer w, w)),
         git_RunQuietAt = (\<lambda>dir. simShowRef),
         git_BranchDelete3 = (\<lambda>repoPath name force. deleteBranch name force),
         Creator_Create = creator,
         Creator_Cleanup = (\<lambda>w. w) \<rparr>"

definition repo0 :: repo where
  "repo0 = \<lparr> branches = {''main''}, unmerged = {}, registered = {}, dirs = {},
             head = (\<lambda>p. []),
             selectAnswer = Inr 2, confirmAnswer = Inr False, failing = {} \<rparr>"

definition feature :: WorktreeInfo where
  "feature = \<lparr> Type = Local, Owner = [], Repo = ''r'', Number = 0,
               BranchName = ''feature'', WorktreeName = ''a'' \<rparr>"

text \<open>
  A \<open>Creator.Create\<close> that does nothing, to observe what \<open>runCreate\<close> has done by
  itself before it calls \<open>Creator.Create\<close>.
\<close>

definition noCreator ::
  "(string \<Rightarrow> repo st \<Rightarrow> BranchAction \<times> repo st) \<Rightarrow> WorktreeInfo \<Rightarrow> repo st
     \<Rightarrow> error option outcome \<times> repo st" where
  "noCreator check info s = (Returned None, s)"

text \<open>
  Modelled from the spec: \<open>Creator.Create\<close> of the worktree package is not under src/.
  Step 2 of the provisioner: it asks the branch check once; on Cancel it ends with a
  result that is not an error, with no mutation; on Attach it registers the worktree
  against the existing branch; otherwise it creates the branch and registers the
  worktree.
\<close>

definition specCreator ::
  "(string \<Rightarrow> repo st \<Rightarrow> BranchAction \<times> repo st) \<Rightarrow> WorktreeInfo \<Rightarrow> repo st
     \<Rightarrow> error option outcome \<times> repo st" where
  "specCreator check info s =
     (let path = joinPath [''/w'', Repo info, WorktreeName info];
          (decision, s1) = check (BranchName info) s
      in case decision of
           BranchActionCancel \<Rightarrow> (Returned None, s1)
         | BranchActionAttach \<Rightarrow>
             (let (err, s2) = act (CallAttach path (BranchName info))
                                  (registerWorktree path (BranchName info)) s1
              in (Returned err, s2))
         | BranchActionOverwrite \<Rightarrow>
             (let (err, s2) = act (CallCreate path (BranchName info) ''HEAD'')
                                  (simCreate path (BranchName info) ''HEAD'') s1
              in (Returned err, s2)))"

lemmas sim_defs =
  sim_def sim0_def ops.extend_def simShowRef_def simGit_def simCreate_def createBranch_def
  deleteBranch_def registerWorktree_def unregisterWorktree_def noCreator_def specCreator_def
  repo0_def feature_def BranchExists_args_def insert_Diff_if

text \<open>
  Claim C2, as amended. A \<open>createWorktree\<close> call whose target path is already an
  existing worktree (\<open>worktree.Exists\<close> reports it) fails with the error "worktree
  directory already exists" and has invoked nothing but that existence query: the world
  is unchanged. The earlier \<open>runCreate\<close> does not refuse an existing worktree. Without
  the force flag it asks for confirmation: a failure of the prompt is returned as an
  error and a declined confirmation returns nil, both with no mutation. With the force
  flag, or after a confirmed prompt, it reads the current branch of the worktree and
  calls \<open>worktree.Remove\<close> with \<open>force = true\<close>; if that fails it returns "failed to
  remove existing worktree", and otherwise it goes on to \<open>Creator.Create\<close>, whose result
  it returns, after \<open>Creator.Cleanup\<close> when that result is an error or a panic.
\<close>

theorem create_existing_path:
  "(worktree_Exists ops (worktreePathOf ops info w) w \<longrightarrow>
      createWorktree ops useExistingFlag info startPoint (w, l)
      = (Some (WorktreeDirExists (filepath_Abs ops (worktreePathOf ops info w) w)),
         (w, l @ [CallExists (worktreePathOf ops info w)])))
   \<and> (worktree_ParseArgument ops0 arg v = Inr i
        \<and> worktree_WorktreeExists ops0 (worktreePath0 ops0 i v) v \<longrightarrow>
        (prompter_Confirm ops0 (confirmPrompt (worktreePath0 ops0 i v)) False v = (Inl e0, v1)
           \<longrightarrow> runCreate ops0 False useExistingFlag arg (v, k)
               = (Returned (Some (PromptFailed e0)),
                  (v1, k @ [CallParseArgument arg, CallWorktreeExists (worktreePath0 ops0 i v),
                            CallConfirm (confirmPrompt (worktreePath0 ops0 i v)) False])))
        \<and> (prompter_Confirm ops0 (confirmPrompt (worktreePath0 ops0 i v)) False v = (Inr False, v1)
           \<longrightarrow> runCreate ops0 False useExistingFlag arg (v, k)
               = (Returned None,
                  (v1, k @ [CallParseArgument arg, CallWorktreeExists (worktreePath0 ops0 i v),
                            CallConfirm (confirmPrompt (worktreePath0 ops0 i v)) False])))
        \<and> (prompter_Confirm ops0 (confirmPrompt (worktreePath0 ops0 i v)) False v = (Inr True, v1)
           \<longrightarrow> runCreate ops0 False useExistingFlag arg (v, k)
               = (case worktree_Remove ops0 (repoPath0 ops0 i v) (worktreePath0 ops0 i v)
                         (currentBranch ops0 (worktreePath0 ops0 i v) v1) True v1 of
                    (Some e, v2) \<Rightarrow>
                      (Returned (Some (FailedToRemoveExisting e)),
                       (v2, k @ [CallParseArgument arg,
                                 CallWorktreeExists (worktreePath0 ops0 i v),
                                 CallConfirm (confirmPrompt (worktreePath0 ops0 i v)) False,
                                 CallGitOutputAt (worktreePath0 ops0 i v)
                                   [''rev-parse'', ''--abbrev-ref'', ''HEAD''],
                                 CallRemove (repoPath0 ops0 i v) (worktreePath0 ops0 i v)
                                   (currentBranch ops0 (worktreePath0 ops0 i v) v1) True]))
                  | (None, v2) \<Rightarrow>
                      (case Creator_Create ops0
                              (runCreate_branchCheck ops0 False useExistingFlag (repoPath0 ops0 i v))
                              i
                              (v2, k @ [CallParseArgument arg,
                                        CallWorktreeExists (worktreePath0 ops0 i v),
                                        CallConfirm (confirmPrompt (worktreePath0 ops0 i v)) False,
                                        CallGitOutputAt (worktreePath0 ops0 i v)
                                          [''rev-parse'', ''--abbrev-ref'', ''HEAD''],
                                        CallRemove (repoPath0 ops0 i v) (worktreePath0 ops0 i v)
                                          (currentBranch ops0 (worktreePath0 ops0 i v) v1) True,
                                        CallCreatorCreate]) of
                         (Returned None, s) \<Rightarrow> (Returned None, s)
                       | (Returned (Some e), s) \<Rightarrow>
                           (Returned (Some e),
                            (Creator_Cleanup ops0 (fst s), snd s @ [CallCreatorCleanup]))
                       | (Panicked m, s) \<Rightarrow>
                           (Panicked m,
                            (Creator_Cleanup ops0 (fst s), snd s @ [CallCreatorCleanup])))))
        \<and> runCreate ops0 True useExistingFlag arg (v, k)
            = (case worktree_Remove ops0 (repoPath0 ops0 i v) (worktreePath0 ops0 i v)
                      (currentBranch ops0 (worktreePath0 ops0 i v) v) True v of
                 (Some e, v2) \<Rightarrow>
                   (Returned (Some (FailedToRemoveExisting e)),
                    (v2, k @ [CallParseArgument arg,
                              CallWorktreeExists (worktreePath0 ops0 i v),
                              CallGitOutputAt (worktreePath0 ops0 i v)
                                [''rev-parse'', ''--abbrev-ref'', ''HEAD''],
                              CallRemove (repoPath0 ops0 i v) (worktreePath0 ops0 i v)
                                (currentBranch ops0 (worktreePath0 ops0 i v) v) True]))
               | (None, v2) \<Rightarrow>
                   (case Creator_Create ops0
                           (runCreate_branchCheck ops0 True useExistingFlag (repoPath0 ops0 i v))
                           i
                           (v2, k @ [CallParseArgument arg,
                                     CallWorktreeExists (worktreePath0 ops0 i v),
                                     CallGitOutputAt (worktreePath0 ops0 i v)
                                       [''rev-parse'', ''--abbrev-ref'', ''HEAD''],
                                     CallRemove (repoPath0 ops0 i v) (worktreePath0 ops0 i v)
                                       (currentBranch ops0 (worktreePath0 ops0 i v) v) True,
                                     CallCreatorCreate]) of
                      (Returned None, s) \<Rightarrow> (Returned None, s)
                    | (Returned (Some e), s) \<Rightarrow>
                        (Returned (Some e),
                         (Creator_Cleanup ops0 (fst s), snd s @ [CallCreatorCleanup]))
                    | (Panicked m, s) \<Rightarrow>
                        (Panicked m,
                         (Creator_Cleanup ops0 (fst s), snd s @ [CallCreatorCleanup])))))"
proof (intro conjI impI)
  assume "worktree_Exists ops (worktreePathOf ops info w) w"
  then show "createWorktree ops useExistingFlag info startPoint (w, l)
      = (Some (WorktreeDirExists (filepath_Abs ops (worktreePathOf ops info w) w)),
         (w, l @ [CallExists (worktreePathOf ops info w)]))"
    by (rule createWorktree_existing)
next
  assume a: "worktree_ParseArgument ops0 arg v = Inr i
        \<and> worktree_WorktreeExists ops0 (worktreePath0 ops0 i v) v"
    and c: "prompter_Confirm ops0 (confirmPrompt (worktreePath0 ops0 i v)) False v = (Inl e0, v1)"
  from a runCreate_confirm [OF _ _ c, of arg useExistingFlag k]
  show "runCreate ops0 False useExistingFlag arg (v, k)
               = (Returned (Some (PromptFailed e0)),
                  (v1, k @ [CallParseArgument arg, CallWorktreeExists (worktreePath0 ops0 i v),
                            CallConfirm (confirmPrompt (worktreePath0 ops0 i v)) False]))"
    by simp
next
  assume a: "worktree_ParseArgument ops0 arg v = Inr i
        \<and> worktree_WorktreeExists ops0 (worktreePath0 ops0 i v) v"
    and c: "prompter_Confirm ops0 (confirmPrompt (worktreePath0 ops0 i v)) False v = (Inr False, v1)"
  from a runCreate_confirm [OF _ _ c, of arg useExistingFlag k]
  show "runCreate ops0 False useExistingFlag arg (v, k)
               = (Returned None,
                  (v1, k @ [CallParseArgument arg, CallWorktreeExists (worktreePath0 ops0 i v),
                            CallConfirm (confirmPrompt (worktreePath0 ops0 i v)) False]))"
    by simp
next
  assume a: "worktree_ParseArgument ops0 arg v = Inr i
        \<and> worktree_WorktreeExists ops0 (worktreePath0 ops0 i v) v"
    and c: "prompter_Confirm ops0 (confirmPrompt (worktreePath0 ops0 i v)) False v = (Inr True, v1)"
  from a runCreate_confirm [OF _ _ c, of arg useExistingFlag k]
  show "runCreate ops0 False useExistingFlag arg (v, k)
               = (case worktree_Remove ops0 (repoPath0 ops0 i v) (worktreePath0 ops0 i v)
                         (currentBranch ops0 (worktreePath0 ops0 i v) v1) True v1 of
                    (Some e, v2) \<Rightarrow>
                      (Returned (Some (FailedToRemoveExisting e)),
                       (v2, k @ [CallParseArgument arg,
                                 CallWorktreeExists (worktreePath0 ops0 i v),
                                 CallConfirm (confirmPrompt (worktreePath0 ops0 i v)) False,
                                 CallGitOutputAt (worktreePath0 ops0 i v)
                                   [''rev-parse'', ''--abbrev-ref'', ''HEAD''],
                                 CallRemove (repoPath0 ops0 i v) (worktreePath0 ops0 i v)
                                   (currentBranch ops0 (worktreePath0 ops0 i v) v1) True]))
                  | (None, v2) \<Rightarrow>
                      (case Creator_Create ops0
                              (runCreate_branchCheck ops0 False useExistingFlag (repoPath0 ops0 i v))
                              i
                              (v2, k @ [CallParseArgument arg,
                                        CallWorktreeExists (worktreePath0 ops0 i v),
                                        CallConfirm (confirmPrompt (worktreePath0 ops0 i v)) False,
                                        CallGitOutputAt (worktreePath0 ops0 i v)
                                          [''rev-parse'', ''--abbrev-ref'', ''HEAD''],
                                        CallRemove (repoPath0 ops0 i v) (worktreePath0 ops0 i v)
                                          (currentBranch ops0 (worktreePath0 ops0 i v) v1) True,
                                        CallCreatorCreate]) of
                         (Returned None, s) \<Rightarrow> (Returned None, s)
                       | (Returned (Some e), s) \<Rightarrow>
                           (Returned (Some e),
                            (Creator_Cleanup ops0 (fst s), snd s @ [CallCreatorCleanup]))
                       | (Panicked m, s) \<Rightarrow>
                           (Panicked m,
                            (Creator_Cleanup ops0 (fst s), snd s @ [CallCreatorCleanup]))))"
    by (simp add: removeExisting_create_eq split: prod.splits option.splits outcome.splits)
next
  assume a: "worktree_ParseArgument ops0 arg v = Inr i
        \<and> worktree_WorktreeExists ops0 (worktreePath0 ops0 i v) v"
  from a runCreate_forced [of ops0 arg v i useExistingFlag k]
  show "runCreate ops0 True useExistingFlag arg (v, k)
            = (case worktree_Remove ops0 (repoPath0 ops0 i v) (worktreePath0 ops0 i v)
                      (currentBranch ops0 (worktreePath0 ops0 i v) v) True v of
                 (Some e, v2) \<Rightarrow>
                   (Returned (Some (FailedToRemoveExisting e)),
                    (v2, k @ [CallParseArgument arg,
                              CallWorktreeExists (worktreePath0 ops0 i v),
                              CallGitOutputAt (worktreePath0 ops0 i v)
                                [''rev-parse'', ''--abbrev-ref'', ''HEAD''],
                              CallRemove (repoPath0 ops0 i v) (worktreePath0 ops0 i v)
                                (currentBranch ops0 (worktreePath0 ops0 i v) v) True]))
               | (None, v2) \<Rightarrow>
                   (case Creator_Create ops0
                           (runCreate_branchCheck ops0 True useExistingFlag (repoPath0 ops0 i v))
                           i
                           (v2, k @ [CallParseArgument arg,
                                     CallWorktreeExists (worktreePath0 ops0 i v),
                                     CallGitOutputAt (worktreePath0 ops0 i v)
                                       [''rev-parse'', ''--abbrev-ref'', ''HEAD''],
                                     CallRemove (repoPath0 ops0 i v) (worktreePath0 ops0 i v)
                                       (currentBranch ops0 (worktreePath0 ops0 i v) v) True,
                                     CallCreatorCreate]) of
                      (Returned None, s) \<Rightarrow> (Returned None, s)
                    | (Returned (Some e), s) \<Rightarrow>
                        (Returned (Some e),
                         (Creator_Cleanup ops0 (fst s), snd s @ [CallCreatorCleanup]))
                    | (Panicked m, s) \<Rightarrow>
                        (Panicked m,
                         (Creator_Cleanup ops0 (fst s), snd s @ [CallCreatorCleanup]))))"
    by (simp add: removeExisting_create_eq split: prod.splits option.splits outcome.splits)
qed

definition occupied :: repo where
  "occupied = repo0\<lparr>branches := {''main'', ''a''}, registered := {''/w/r/a''},
                    dirs := {''/w/r/a''}, head := (\<lambda>p. [])(''/w/r/a'' := ''a'')\<rparr>"

text \<open>
  The claim as stated fails on \<open>runCreate\<close>. On an existing worktree the call with the
  force flag removes the worktree and its branch and raises no path conflict: with a
  \<open>Creator.Create\<close> that does nothing it returns nil, and the directory and the branch
  are gone. The declined call returns nil as well.
\<close>

theorem create_existing_path_counterexample:
  "worktree_WorktreeExists (sim0 noCreator) ''/w/r/a'' occupied
   \<and> fst (runCreate (sim0 noCreator) True False ''a'' (occupied, [])) = Returned None
   \<and> dirs (fst (snd (runCreate (sim0 noCreator) True False ''a'' (occupied, [])))) = {}
   \<and> branches (fst (snd (runCreate (sim0 noCreator) True False ''a'' (occupied, [])))) = {''main''}
   \<and> fst (runCreate (sim0 noCreator) False False ''a'' (occupied, [])) = Returned None"
  by (simp add: runCreate_def runCreate_removeExisting_def runCreate_create_def
        GetCurrentBranch_def ask_def act_def Let_def split_def occupied_def sim_defs)


theorem create_existing_path_witness:
  "createWorktree sim False feature ''HEAD'' (occupied, [])
     = (Some (WorktreeDirExists ''/w/r/a''), (occupied, [CallExists ''/w/r/a'']))
   \<and> runCreate (sim0 noCreator) False False ''a'' (occupied, [])
     = (Returned None,
        (occupied, [CallParseArgument ''a'', CallWorktreeExists ''/w/r/a'',
                    CallConfirm (confirmPrompt ''/w/r/a'') False]))
   \<and> runCreate (sim0 noCreator) False False ''a'' (occupied\<lparr>confirmAnswer := Inr True\<rparr>, [])
     = (Returned None,
        (occupied\<lparr>confirmAnswer := Inr True, registered := {}, dirs := {},
                  branches := {''main''}\<rparr>,
         [CallParseArgument ''a'', CallWorktreeExists ''/w/r/a'',
          CallConfirm (confirmPrompt ''/w/r/a'') False,
          CallGitOutputAt ''/w/r/a'' [''rev-parse'', ''--abbrev-ref'', ''HEAD''],
          CallRemove ''/w/r'' ''/w/r/a'' ''a'' True,
          CallCreatorCreate]))"
proof -
  let ?i = "\<lparr> Type = Local, Owner = [], Repo = ''r'', Number = 0,
               BranchName = ''a'', WorktreeName = ''a'' \<rparr>"
  let ?y = "occupied\<lparr>confirmAnswer := Inr True\<rparr>"
  have p: "worktreePathOf sim feature occupied = ''/w/r/a''"
    by (simp add: worktreePathOf_def sim_defs)
  have h1: "worktree_Exists sim (worktreePathOf sim feature occupied) occupied"
    by (simp add: p) (simp add: occupied_def sim_defs)
  have a: "createWorktree sim False feature ''HEAD'' (occupied, [])
           = (Some (WorktreeDirExists ''/w/r/a''), (occupied, [CallExists ''/w/r/a'']))"
    using create_existing_path [THEN conjunct1, rule_format, where ops = sim and info = feature
        and w = occupied and useExistingFlag = False and startPoint = "''HEAD''" and l = "[]",
        OF h1]
    by (simp add: p) (simp add: sim_def)
  have q: "worktreePath0 (sim0 noCreator) ?i w = ''/w/r/a''" for w
    by (simp add: worktreePath0_def sim_defs)
  have r: "repoPath0 (sim0 noCreator) ?i w = ''/w/r''" for w
    by (simp add: repoPath0_def sim_defs)
  have h2: "worktree_ParseArgument (sim0 noCreator) ''a'' w = Inr ?i" for w
    by (simp add: sim_defs)
  have h3: "worktree_WorktreeExists (sim0 noCreator) ''/w/r/a'' occupied"
    and h3': "worktree_WorktreeExists (sim0 noCreator) ''/w/r/a'' ?y"
    by (simp_all add: occupied_def sim_defs)
  have h4: "prompter_Confirm (sim0 noCreator) (confirmPrompt ''/w/r/a'') False occupied
            = (Inr False, occupied)"
    and h4': "prompter_Confirm (sim0 noCreator) (confirmPrompt ''/w/r/a'') False ?y
            = (Inr True, ?y)"
    by (simp_all add: occupied_def sim_defs)
  have b: "runCreate (sim0 noCreator) False False ''a'' (occupied, [])
           = (Returned None,
              (occupied, [CallParseArgument ''a'', CallWorktreeExists ''/w/r/a'',
                          CallConfirm (confirmPrompt ''/w/r/a'') False]))"
    using create_existing_path [where ?ops0.0 = "sim0 noCreator"
        and arg = "''a''" and v = occupied and i = ?i and ?v1.0 = occupied
        and useExistingFlag = False and k = "[]", THEN conjunct2] h3 h4
    by (simp add: q r h2)
  have c: "runCreate (sim0 noCreator) False False ''a'' (?y, [])
     = (Returned None,
        (occupied\<lparr>confirmAnswer := Inr True, registered := {}, dirs := {},
                  branches := {''main''}\<rparr>,
         [CallParseArgument ''a'', CallWorktreeExists ''/w/r/a'',
          CallConfirm (confirmPrompt ''/w/r/a'') False,
          CallGitOutputAt ''/w/r/a'' [''rev-parse'', ''--abbrev-ref'', ''HEAD''],
          CallRemove ''/w/r'' ''/w/r/a'' ''a'' True,
          CallCreatorCreate]))"
    using create_existing_path [where ?ops0.0 = "sim0 noCreator"
        and arg = "''a''" and v = ?y and i = ?i and ?v1.0 = ?y and useExistingFlag = False
        and k = "[]", THEN conjunct2] h3' h4'
    by (simp add: worktreePath0_def repoPath0_def currentBranch_def GetCurrentBranch_def ask_def
          occupied_def sim_defs)
  from a b c show ?thesis by blast
qed

text \<open>
  Claim C3, as amended. When the prompt's answer is Cancel (the third option), and also
  when the prompt itself fails, \<open>createWorktree\<close> ends with the error "operation
  cancelled": a non-nil error, not a separate outcome. No mutation is performed: only
  the two existence queries and the prompt have been invoked, and the world is as the
  prompt left it. In the earlier \<open>runCreate\<close>, declining to overwrite an existing
  worktree returns nil, with no mutation; and its branch check, when it prompts (the
  branch exists and neither flag is set), answers \<open>BranchActionCancel\<close>, having
  invoked only the existence query and the prompt, if the prompt's answer is neither of
  the first two options or the prompt fails.
\<close>

theorem create_cancelled:
  "(\<not> worktree_Exists ops (worktreePathOf ops info w) w
      \<and> git_RunQuiet ops (BranchExists_args (BranchName info)) w = None
      \<and> (prompter_Select ops (branchPrompt (BranchName info)) options w = (Inr 2, w1)
           \<or> prompter_Select ops (branchPrompt (BranchName info)) options w = (Inl e, w1))
    \<longrightarrow> createWorktree ops False info startPoint (w, l)
        = (Some OperationCancelled,
           (w1, l @ [CallExists (worktreePathOf ops info w),
                     CallGitQuiet (BranchExists_args (BranchName info)),
                     CallSelect (branchPrompt (BranchName info)) options])))
   \<and> (worktree_ParseArgument ops0 arg v = Inr i
        \<and> worktree_WorktreeExists ops0 (worktreePath0 ops0 i v) v
        \<and> prompter_Confirm ops0 (confirmPrompt (worktreePath0 ops0 i v)) False v = (Inr False, v1)
    \<longrightarrow> runCreate ops0 False useExistingFlag arg (v, k)
        = (Returned None,
           (v1, k @ [CallParseArgument arg, CallWorktreeExists (worktreePath0 ops0 i v),
                     CallConfirm (confirmPrompt (worktreePath0 ops0 i v)) False])))
   \<and> (git_RunQuietAt ops0 repoPath (BranchExists_args branchName) v = None
        \<and> (prompter_Select ops0 (branchPrompt branchName) options0 v = (Inr c, v1)
               \<and> c \<noteq> 0 \<and> c \<noteq> 1
             \<or> prompter_Select ops0 (branchPrompt branchName) options0 v = (Inl e, v1))
    \<longrightarrow> runCreate_branchCheck ops0 False False repoPath branchName (v, k)
        = (BranchActionCancel,
           (v1, k @ [CallGitQuietAt repoPath (BranchExists_args branchName),
                     CallSelect (branchPrompt branchName) options0])))"
proof (intro conjI impI)
  assume a: "\<not> worktree_Exists ops (worktreePathOf ops info w) w
      \<and> git_RunQuiet ops (BranchExists_args (BranchName info)) w = None
      \<and> (prompter_Select ops (branchPrompt (BranchName info)) options w = (Inr 2, w1)
           \<or> prompter_Select ops (branchPrompt (BranchName info)) options w = (Inl e, w1))"
  then consider
      "prompter_Select ops (branchPrompt (BranchName info)) options w = (Inr 2, w1)"
    | "prompter_Select ops (branchPrompt (BranchName info)) options w = (Inl e, w1)"
    by blast
  then show "createWorktree ops False info startPoint (w, l)
        = (Some OperationCancelled,
           (w1, l @ [CallExists (worktreePathOf ops info w),
                     CallGitQuiet (BranchExists_args (BranchName info)),
                     CallSelect (branchPrompt (BranchName info)) options]))"
  proof cases
    case 1
    from createWorktree_prompt [OF _ _ 1, of startPoint l] a show ?thesis
      by (simp add: afterPrompt_def)
  next
    case 2
    from createWorktree_prompt [OF _ _ 2, of startPoint l] a show ?thesis
      by (simp add: afterPrompt_def)
  qed
next
  assume "worktree_ParseArgument ops0 arg v = Inr i
        \<and> worktree_WorktreeExists ops0 (worktreePath0 ops0 i v) v
        \<and> prompter_Confirm ops0 (confirmPrompt (worktreePath0 ops0 i v)) False v = (Inr False, v1)"
  then show "runCreate ops0 False useExistingFlag arg (v, k)
        = (Returned None,
           (v1, k @ [CallParseArgument arg, CallWorktreeExists (worktreePath0 ops0 i v),
                     CallConfirm (confirmPrompt (worktreePath0 ops0 i v)) False]))"
    using runCreate_declined [of ops0 arg v i v1 useExistingFlag k] by blast
next
  assume a: "git_RunQuietAt ops0 repoPath (BranchExists_args branchName) v = None
        \<and> (prompter_Select ops0 (branchPrompt branchName) options0 v = (Inr c, v1)
               \<and> c \<noteq> 0 \<and> c \<noteq> 1
             \<or> prompter_Select ops0 (branchPrompt branchName) options0 v = (Inl e, v1))"
  then consider
      "prompter_Select ops0 (branchPrompt branchName) options0 v = (Inr c, v1)"
        "c \<noteq> 0" "c \<noteq> 1"
    | "prompter_Select ops0 (branchPrompt branchName) options0 v = (Inl e, v1)"
    by blast
  then show "runCreate_branchCheck ops0 False False repoPath branchName (v, k)
        = (BranchActionCancel,
           (v1, k @ [CallGitQuietAt repoPath (BranchExists_args branchName),
                     CallSelect (branchPrompt branchName) options0]))"
  proof cases
    case 1
    from branchCheck_prompt [OF _ 1(1), of repoPath k] a 1(2,3) show ?thesis by simp
  next
    case 2
    from branchCheck_prompt [OF _ 2, of repoPath k] a show ?thesis by simp
  qed
qed

definition taken :: repo where
  "taken = repo0\<lparr>branches := {''main'', ''feature''}, unmerged := {''feature''}\<rparr>"

text \<open>
  The claim as stated fails on \<open>createWorktree\<close>: with the branch present and the answer
  Cancel, the result is an error.
\<close>

theorem create_cancelled_counterexample:
  "fst (createWorktree sim False feature ''HEAD'' (taken\<lparr>selectAnswer := Inr 2\<rparr>, []))
   = Some OperationCancelled"
  by (simp add: create_defs taken_def sim_defs)

theorem create_cancelled_witness:
  "createWorktree sim False feature ''HEAD'' (taken\<lparr>selectAnswer := Inr 2\<rparr>, [])
   = (Some OperationCancelled,
      (taken\<lparr>selectAnswer := Inr 2\<rparr>,
       [CallExists ''/w/r/a'',
        CallGitQuiet [''show-ref'', ''--verify'', ''--quiet'', ''refs/heads/feature''],
        CallSelect (branchPrompt ''feature'') options]))
   \<and> runCreate_branchCheck (sim0 noCreator) False False ''/w/r'' ''feature''
       (taken\<lparr>selectAnswer := Inr 2\<rparr>, [])
   = (BranchActionCancel,
      (taken\<lparr>selectAnswer := Inr 2\<rparr>,
       [CallGitQuietAt ''/w/r'' [''show-ref'', ''--verify'', ''--quiet'', ''refs/heads/feature''],
        CallSelect (branchPrompt ''feature'') options0]))"
proof -
  let ?w = "taken\<lparr>selectAnswer := Inr 2\<rparr>"
  have p: "worktreePathOf sim feature ?w = ''/w/r/a''"
    by (simp add: worktreePathOf_def sim_defs)
  have h: "\<not> worktree_Exists sim (worktreePathOf sim feature ?w) ?w
      \<and> git_RunQuiet sim (BranchExists_args (BranchName feature)) ?w = None
      \<and> (prompter_Select sim (branchPrompt (BranchName feature)) options ?w = (Inr 2, ?w)
           \<or> prompter_Select sim (branchPrompt (BranchName feature)) options ?w
              = (Inl OperationCancelled, ?w))"
    by (simp add: p) (simp add: taken_def sim_defs)
  have a: "createWorktree sim False feature ''HEAD'' (?w, [])
   = (Some OperationCancelled,
      (?w,
       [CallExists ''/w/r/a'',
        CallGitQuiet [''show-ref'', ''--verify'', ''--quiet'', ''refs/heads/feature''],
        CallSelect (branchPrompt ''feature'') options]))"
    using create_cancelled [where ops = sim and info = feature
        and w = ?w and ?w1.0 = ?w and e = OperationCancelled and startPoint = "''HEAD''"
        and l = "[]", THEN conjunct1, rule_format, OF h]
    by (simp add: p) (simp add: feature_def BranchExists_args_def)
  have g: "git_RunQuietAt (sim0 noCreator) ''/w/r'' (BranchExists_args ''feature'') ?w = None
        \<and> (prompter_Select (sim0 noCreator) (branchPrompt ''feature'') options0 ?w = (Inr 2, ?w)
               \<and> (2::int) \<noteq> 0 \<and> (2::int) \<noteq> 1
             \<or> prompter_Select (sim0 noCreator) (branchPrompt ''feature'') options0 ?w
                = (Inl OperationCancelled, ?w))"
    by (simp add: taken_def sim_defs)
  have b: "runCreate_branchCheck (sim0 noCreator) False False ''/w/r'' ''feature'' (?w, [])
   = (BranchActionCancel,
      (?w,
       [CallGitQuietAt ''/w/r'' [''show-ref'', ''--verify'', ''--quiet'', ''refs/heads/feature''],
        CallSelect (branchPrompt ''feature'') options0]))"
    using create_cancelled [where ?ops0.0 = "sim0 noCreator" and repoPath = "''/w/r''"
        and branchName = "''feature''" and v = ?w and ?v1.0 = ?w and c = 2
        and e = OperationCancelled and k = "[]", THEN conjunct2, THEN conjunct2, rule_format,
        OF g]
    by (simp add: BranchExists_args_def)
  from a b show ?thesis by blast
qed

text \<open>
  Claim C4, as amended. In the branch check of the earlier \<open>runCreate\<close>, when the branch
  exists and the force flag is set, the value of use-existing is ignored and the prompt
  is not consulted: the only operations invoked are the existence query and the forced
  deletion of the branch. The decision is Overwrite when that deletion succeeds and
  Cancel when it fails.
\<close>

theorem force_wins:
  "git_RunQuietAt ops repoPath (BranchExists_args branchName) w = None \<longrightarrow>
     runCreate_branchCheck ops True useExistingFlag repoPath branchName (w, l)
     = ((case fst (git_BranchDelete3 ops repoPath branchName True w) of
           None \<Rightarrow> BranchActionOverwrite
         | Some e \<Rightarrow> BranchActionCancel),
        (snd (git_BranchDelete3 ops repoPath branchName True w),
         l @ [CallGitQuietAt repoPath (BranchExists_args branchName),
              CallBranchDelete3 repoPath branchName True]))"
  using branchCheck_force [of ops repoPath branchName w useExistingFlag l] by blast

text \<open>
  The claim as stated (the decision is always Overwrite) fails when the forced deletion
  fails: the decision is Cancel.
\<close>

theorem force_wins_counterexample:
  "git_RunQuietAt (sim0 noCreator) ''/w/r'' (BranchExists_args ''feature'')
     (taken\<lparr>failing := {DeleteBranch}\<rparr>) = None
   \<and> fst (runCreate_branchCheck (sim0 noCreator) True True ''/w/r'' ''feature''
            (taken\<lparr>failing := {DeleteBranch}\<rparr>, [])) = BranchActionCancel"
  by (simp add: runCreate_branchCheck_def branchExists_def ask_def act_def Let_def split_def
        taken_def sim_defs)

theorem force_wins_witness:
  "runCreate_branchCheck (sim0 noCreator) True True ''/w/r'' ''feature'' (taken, [])
   = (BranchActionOverwrite,
      (taken\<lparr>branches := {''main''}, unmerged := {}\<rparr>,
       [CallGitQuietAt ''/w/r'' [''show-ref'', ''--verify'', ''--quiet'', ''refs/heads/feature''],
        CallBranchDelete3 ''/w/r'' ''feature'' True]))"
proof -
  have h: "git_RunQuietAt (sim0 noCreator) ''/w/r'' (BranchExists_args ''feature'') taken = None"
    by (simp add: taken_def sim_defs)
  show ?thesis
    using force_wins [rule_format, where ops = "sim0 noCreator" and repoPath = "''/w/r''"
        and branchName = "''feature''" and w = taken and useExistingFlag = True and l = "[]",
        OF h]
    by (simp add: taken_def sim_defs)
qed

text \<open>
  Claim C5. When the target branch does not exist, no decision is taken and the prompt is
  not invoked. \<open>createWorktree\<close> goes from the two existence queries straight to
  \<open>worktree.Create\<close>, whatever the use-existing flag: the calls it makes are the two
  queries, the creation and, if the creation fails, its cleanup. The branch check of the
  earlier \<open>runCreate\<close> returns its go-ahead value \<open>BranchActionOverwrite\<close> after the
  existence query alone, with no deletion and no prompt, whatever the flags.
\<close>

theorem no_conflict_proceeds:
  "(\<not> worktree_Exists ops (worktreePathOf ops info w) w
      \<and> git_RunQuiet ops (BranchExists_args (BranchName info)) w \<noteq> None
    \<longrightarrow> createWorktree ops useExistingFlag info startPoint (w, l)
        = (case worktree_Create ops (worktreePathOf ops info w) (BranchName info) startPoint w of
             (None, w') \<Rightarrow>
               (None,
                (w', l @ [CallExists (worktreePathOf ops info w),
                          CallGitQuiet (BranchExists_args (BranchName info)),
                          CallCreate (worktreePathOf ops info w) (BranchName info) startPoint]))
           | (Some e, w') \<Rightarrow>
               (Some e,
                (if worktree_Exists ops (worktreePathOf ops info w) w'
                 then os_RemoveAll ops (worktreePathOf ops info w) w' else w',
                 l @ [CallExists (worktreePathOf ops info w),
                      CallGitQuiet (BranchExists_args (BranchName info)),
                      CallCreate (worktreePathOf ops info w) (BranchName info) startPoint,
                      CallExists (worktreePathOf ops info w)]
                   @ (if worktree_Exists ops (worktreePathOf ops info w) w'
                      then [CallRemoveAll (worktreePathOf ops info w)] else [])))))
   \<and> (git_RunQuietAt ops0 repoPath (BranchExists_args branchName) v \<noteq> None
    \<longrightarrow> runCreate_branchCheck ops0 forceFlag useExistingFlag repoPath branchName (v, k)
        = (BranchActionOverwrite,
           (v, k @ [CallGitQuietAt repoPath (BranchExists_args branchName)])))"
proof (intro conjI impI)
  assume a: "\<not> worktree_Exists ops (worktreePathOf ops info w) w
      \<and> git_RunQuiet ops (BranchExists_args (BranchName info)) w \<noteq> None"
  then have "createWorktree ops useExistingFlag info startPoint (w, l)
         = createWorktree_step3 ops (worktreePathOf ops info w) info startPoint
             (w, l @ [CallExists (worktreePathOf ops info w),
                      CallGitQuiet (BranchExists_args (BranchName info))])"
    using createWorktree_no_conflict [of ops info w useExistingFlag startPoint l] by blast
  then show "createWorktree ops useExistingFlag info startPoint (w, l)
        = (case worktree_Create ops (worktreePathOf ops info w) (BranchName info) startPoint w of
             (None, w') \<Rightarrow>
               (None,
                (w', l @ [CallExists (worktreePathOf ops info w),
                          CallGitQuiet (BranchExists_args (BranchName info)),
                          CallCreate (worktreePathOf ops info w) (BranchName info) startPoint]))
           | (Some e, w') \<Rightarrow>
               (Some e,
                (if worktree_Exists ops (worktreePathOf ops info w) w'
                 then os_RemoveAll ops (worktreePathOf ops info w) w' else w',
                 l @ [CallExists (worktreePathOf ops info w),
                      CallGitQuiet (BranchExists_args (BranchName info)),
                      CallCreate (worktreePathOf ops info w) (BranchName info) startPoint,
                      CallExists (worktreePathOf ops info w)]
                   @ (if worktree_Exists ops (worktreePathOf ops info w) w'
                      then [CallRemoveAll (worktreePathOf ops info w)] else []))))"
    by (simp add: createWorktree_step3_eq split: prod.splits option.splits)
next
  assume "git_RunQuietAt ops0 repoPath (BranchExists_args branchName) v \<noteq> None"
  then show "runCreate_branchCheck ops0 forceFlag useExistingFlag repoPath branchName (v, k)
        = (BranchActionOverwrite,
           (v, k @ [CallGitQuietAt repoPath (BranchExists_args branchName)]))"
    by (rule branchCheck_absent)
qed

theorem no_conflict_proceeds_witness:
  "createWorktree sim True feature ''HEAD'' (repo0\<lparr>selectAnswer := Inr 0\<rparr>, [])
   = (None,
      (repo0\<lparr>selectAnswer := Inr 0, branches := {''feature'', ''main''},
             registered := {''/w/r/a''}, dirs := {''/w/r/a''},
             head := (\<lambda>p. [])(''/w/r/a'' := ''feature'')\<rparr>,
       [CallExists ''/w/r/a'',
        CallGitQuiet [''show-ref'', ''--verify'', ''--quiet'', ''refs/heads/feature''],
        CallCreate ''/w/r/a'' ''feature'' ''HEAD'']))
   \<and> runCreate_branchCheck (sim0 noCreator) True True ''/w/r'' ''feature'' (repo0, [])
     = (BranchActionOverwrite,
        (repo0,
         [CallGitQuietAt ''/w/r'' [''show-ref'', ''--verify'', ''--quiet'', ''refs/heads/feature'']]))"
proof -
  let ?w = "repo0\<lparr>selectAnswer := Inr 0\<rparr>"
  have p: "worktreePathOf sim feature ?w = ''/w/r/a''"
    by (simp add: worktreePathOf_def sim_defs)
  have h: "\<not> worktree_Exists sim (worktreePathOf sim feature ?w) ?w
      \<and> git_RunQuiet sim (BranchExists_args (BranchName feature)) ?w \<noteq> None"
    by (simp add: p) (simp add: sim_defs)
  have a: "createWorktree sim True feature ''HEAD'' (?w, [])
   = (None,
      (repo0\<lparr>selectAnswer := Inr 0, branches := {''feature'', ''main''},
             registered := {''/w/r/a''}, dirs := {''/w/r/a''},
             head := (\<lambda>p. [])(''/w/r/a'' := ''feature'')\<rparr>,
       [CallExists ''/w/r/a'',
        CallGitQuiet [''show-ref'', ''--verify'', ''--quiet'', ''refs/heads/feature''],
        CallCreate ''/w/r/a'' ''feature'' ''HEAD'']))"
    using no_conflict_proceeds [THEN conjunct1, rule_format, where ops = sim and info = feature
        and w = ?w and useExistingFlag = True and startPoint = "''HEAD''" and l = "[]", OF h]
    by (simp add: worktreePathOf_def sim_defs)
  have g: "git_RunQuietAt (sim0 noCreator) ''/w/r'' (BranchExists_args ''feature'') repo0 \<noteq> None"
    by (simp add: sim_defs)
  have b: "runCreate_branchCheck (sim0 noCreator) True True ''/w/r'' ''feature'' (repo0, [])
     = (BranchActionOverwrite,
        (repo0,
         [CallGitQuietAt ''/w/r'' [''show-ref'', ''--verify'', ''--quiet'', ''refs/heads/feature'']]))"
    using no_conflict_proceeds [THEN conjunct2, rule_format, where ?ops0.0 = "sim0 noCreator"
        and repoPath = "''/w/r''" and branchName = "''feature''" and v = repo0
        and forceFlag = True and useExistingFlag = True and k = "[]", OF g]
    by (simp add: BranchExists_args_def)
  from a b show ?thesis by blast
qed




text \<open>
  Claim C7. On the Attach path, reached by the use-existing flag or by the second option
  of the prompt, \<open>createWorktree\<close> invokes \<open>worktree.Attach\<close> and nothing after it, and
  returns what it returned. Whether the registration fails or not, no git command and no
  \<open>worktree.Create\<close> is invoked: the path never creates or deletes a branch, and the
  world is left as the registration attempt left it.
\<close>

theorem attach_leaves_branch:
  "\<not> worktree_Exists ops (worktreePathOf ops info w) w
     \<and> git_RunQuiet ops (BranchExists_args (BranchName info)) w = None
   \<longrightarrow> createWorktree ops True info startPoint (w, l)
       = (fst (worktree_Attach ops (worktreePathOf ops info w) (BranchName info) w),
          (snd (worktree_Attach ops (worktreePathOf ops info w) (BranchName info) w),
           l @ [CallExists (worktreePathOf ops info w),
                CallGitQuiet (BranchExists_args (BranchName info)),
                CallAttach (worktreePathOf ops info w) (BranchName info)]))
     \<and> (prompter_Select ops (branchPrompt (BranchName info)) options w = (Inr 1, w1)
        \<longrightarrow> createWorktree ops False info startPoint (w, l)
            = (fst (worktree_Attach ops (worktreePathOf ops info w) (BranchName info) w1),
               (snd (worktree_Attach ops (worktreePathOf ops info w) (BranchName info) w1),
                l @ [CallExists (worktreePathOf ops info w),
                     CallGitQuiet (BranchExists_args (BranchName info)),
                     CallSelect (branchPrompt (BranchName info)) options,
                     CallAttach (worktreePathOf ops info w) (BranchName info)])))"
proof (intro impI conjI)
  assume a: "\<not> worktree_Exists ops (worktreePathOf ops info w) w
     \<and> git_RunQuiet ops (BranchExists_args (BranchName info)) w = None"
  then show "createWorktree ops True info startPoint (w, l)
       = (fst (worktree_Attach ops (worktreePathOf ops info w) (BranchName info) w),
          (snd (worktree_Attach ops (worktreePathOf ops info w) (BranchName info) w),
           l @ [CallExists (worktreePathOf ops info w),
                CallGitQuiet (BranchExists_args (BranchName info)),
                CallAttach (worktreePathOf ops info w) (BranchName info)]))"
    using createWorktree_useExisting [of ops info w startPoint l] by blast
  assume s: "prompter_Select ops (branchPrompt (BranchName info)) options w = (Inr 1, w1)"
  from createWorktree_prompt [OF _ _ s, of startPoint l] a
  show "createWorktree ops False info startPoint (w, l)
            = (fst (worktree_Attach ops (worktreePathOf ops info w) (BranchName info) w1),
               (snd (worktree_Attach ops (worktreePathOf ops info w) (BranchName info) w1),
                l @ [CallExists (worktreePathOf ops info w),
                     CallGitQuiet (BranchExists_args (BranchName info)),
                     CallSelect (branchPrompt (BranchName info)) options,
                     CallAttach (worktreePathOf ops info w) (BranchName info)]))"
    by (simp add: afterPrompt_def)
qed

theorem attach_leaves_branch_witness:
  "createWorktree sim True feature ''HEAD'' (taken\<lparr>failing := {RegisterWorktree}\<rparr>, [])
   = (Some (External ''registerWorktree failed''),
      (taken\<lparr>failing := {RegisterWorktree}\<rparr>,
       [CallExists ''/w/r/a'',
        CallGitQuiet [''show-ref'', ''--verify'', ''--quiet'', ''refs/heads/feature''],
        CallAttach ''/w/r/a'' ''feature'']))
   \<and> createWorktree sim False feature ''HEAD''
       (taken\<lparr>selectAnswer := Inr 1, failing := {RegisterWorktree}\<rparr>, [])
   = (Some (External ''registerWorktree failed''),
      (taken\<lparr>selectAnswer := Inr 1, failing := {RegisterWorktree}\<rparr>,
       [CallExists ''/w/r/a'',
        CallGitQuiet [''show-ref'', ''--verify'', ''--quiet'', ''refs/heads/feature''],
        CallSelect (branchPrompt ''feature'') options,
        CallAttach ''/w/r/a'' ''feature'']))
   \<and> ''feature'' \<in> branches (taken\<lparr>failing := {RegisterWorktree}\<rparr>)"
proof -
  let ?w = "taken\<lparr>failing := {RegisterWorktree}\<rparr>"
  let ?u = "taken\<lparr>selectAnswer := Inr 1, failing := {RegisterWorktree}\<rparr>"
  have h: "\<not> worktree_Exists sim (worktreePathOf sim feature ?w) ?w
     \<and> git_RunQuiet sim (BranchExists_args (BranchName feature)) ?w = None"
    by (simp add: worktreePathOf_def taken_def sim_defs)
  have a: "createWorktree sim True feature ''HEAD'' (?w, [])
   = (Some (External ''registerWorktree failed''),
      (?w,
       [CallExists ''/w/r/a'',
        CallGitQuiet [''show-ref'', ''--verify'', ''--quiet'', ''refs/heads/feature''],
        CallAttach ''/w/r/a'' ''feature'']))"
    using attach_leaves_branch [where ops = sim and info = feature and w = ?w and ?w1.0 = ?w
        and startPoint = "''HEAD''" and l = "[]"] h
    by (simp add: worktreePathOf_def taken_def sim_defs)
  have g: "\<not> worktree_Exists sim (worktreePathOf sim feature ?u) ?u
     \<and> git_RunQuiet sim (BranchExists_args (BranchName feature)) ?u = None"
    by (simp add: worktreePathOf_def taken_def sim_defs)
  have s: "prompter_Select sim (branchPrompt (BranchName feature)) options ?u = (Inr 1, ?u)"
    by (simp add: taken_def sim_defs)
  have b: "createWorktree sim False feature ''HEAD'' (?u, [])
   = (Some (External ''registerWorktree failed''),
      (?u,
       [CallExists ''/w/r/a'',
        CallGitQuiet [''show-ref'', ''--verify'', ''--quiet'', ''refs/heads/feature''],
        CallSelect (branchPrompt ''feature'') options,
        CallAttach ''/w/r/a'' ''feature'']))"
    using attach_leaves_branch [where ops = sim and info = feature and w = ?u and ?w1.0 = ?u
        and startPoint = "''HEAD''" and l = "[]"] g s
    by (simp add: worktreePathOf_def taken_def sim_defs)
  have c: "''feature'' \<in> branches ?w" by (simp add: taken_def sim_defs)
  from a b c show ?thesis by blast
qed

lemma BranchDelete_eq:
  "BranchDelete ops branch force (w, l)
   = (fst (git_Command ops [''branch'', if force then ''-D'' else ''-d'', branch] w),
      (snd (git_Command ops [''branch'', if force then ''-D'' else ''-d'', branch] w),
       l @ [CallGit [''branch'', if force then ''-D'' else ''-d'', branch]]))"
  by (simp add: BranchDelete_def BranchDelete_args_eq act_def)

lemma createWorktree_git_calls:
  "c \<in> set (snd (snd (createWorktree ops useExistingFlag info startPoint (w, []))))
     \<Longrightarrow> c = CallGit args \<Longrightarrow> args = [''branch'', ''-D'', BranchName info]"
  by (auto simp add: create_defs BranchDelete_args_eq
           split: if_splits sum.splits option.splits prod.splits)

lemma branchCheck_delete_calls:
  "c \<in> set (snd (snd (runCreate_branchCheck ops forceFlag useExistingFlag repoPath branchName
                       (w, []))))
     \<Longrightarrow> c = CallBranchDelete3 r x force \<Longrightarrow> force \<and> r = repoPath \<and> x = branchName"
  by (auto simp add: runCreate_branchCheck_def branchExists_def ask_def act_def Let_def split_def
           split: if_splits sum.splits option.splits prod.splits)

lemma removeExisting_calls:
  "c \<in> set (snd (snd (runCreate_removeExisting ops repoPath worktreePath (w, []))))
     \<Longrightarrow> c = CallRemove r p x force \<Longrightarrow> force \<and> r = repoPath \<and> p = worktreePath"
  by (auto simp add: removeExisting_eq)

text \<open>
  Claim C1, as amended. When \<open>worktree.Create\<close> fails, on the no-conflict path and on the
  Overwrite path alike, \<open>createWorktree\<close> returns that error after a cleanup that asks
  whether the worktree directory exists and, if so, removes that directory. It invokes no
  branch deletion: after the failure the only calls are that query and \<open>os.RemoveAll\<close>,
  so the branch is left as \<open>worktree.Create\<close> left it.
\<close>

theorem create_failure_cleanup:
  "(\<not> worktree_Exists ops (worktreePathOf ops info w) w
      \<and> git_RunQuiet ops (BranchExists_args (BranchName info)) w \<noteq> None
      \<and> worktree_Create ops (worktreePathOf ops info w) (BranchName info) startPoint w
          = (Some e, w')
    \<longrightarrow> createWorktree ops useExistingFlag info startPoint (w, l)
        = (Some e,
           (if worktree_Exists ops (worktreePathOf ops info w) w'
            then os_RemoveAll ops (worktreePathOf ops info w) w' else w',
            l @ [CallExists (worktreePathOf ops info w),
                 CallGitQuiet (BranchExists_args (BranchName info)),
                 CallCreate (worktreePathOf ops info w) (BranchName info) startPoint,
                 CallExists (worktreePathOf ops info w)]
              @ (if worktree_Exists ops (worktreePathOf ops info w) w'
                 then [CallRemoveAll (worktreePathOf ops info w)] else []))))
   \<and> (\<not> worktree_Exists ops (worktreePathOf ops info w) w
      \<and> git_RunQuiet ops (BranchExists_args (BranchName info)) w = None
      \<and> prompter_Select ops (branchPrompt (BranchName info)) options w = (Inr 0, w1)
      \<and> git_Command ops [''branch'', ''-D'', BranchName info] w1 = (None, w2)
      \<and> worktree_Create ops (worktreePathOf ops info w) (BranchName info) startPoint w2
          = (Some e, w')
    \<longrightarrow> createWorktree ops False info startPoint (w, l)
        = (Some e,
           (if worktree_Exists ops (worktreePathOf ops info w) w'
            then os_RemoveAll ops (worktreePathOf ops info w) w' else w',
            l @ [CallExists (worktreePathOf ops info w),
                 CallGitQuiet (BranchExists_args (BranchName info)),
                 CallSelect (branchPrompt (BranchName info)) options,
                 CallGit [''branch'', ''-D'', BranchName info],
                 CallCreate (worktreePathOf ops info w) (BranchName info) startPoint,
                 CallExists (worktreePathOf ops info w)]
              @ (if worktree_Exists ops (worktreePathOf ops info w) w'
                 then [CallRemoveAll (worktreePathOf ops info w)] else []))))"
proof (intro conjI impI)
  assume a: "\<not> worktree_Exists ops (worktreePathOf ops info w) w
      \<and> git_RunQuiet ops (BranchExists_args (BranchName info)) w \<noteq> None
      \<and> worktree_Create ops (worktreePathOf ops info w) (BranchName info) startPoint w
          = (Some e, w')"
  then have "createWorktree ops useExistingFlag info startPoint (w, l)
         = createWorktree_step3 ops (worktreePathOf ops info w) info startPoint
             (w, l @ [CallExists (worktreePathOf ops info w),
                      CallGitQuiet (BranchExists_args (BranchName info))])"
    using createWorktree_no_conflict [of ops info w useExistingFlag startPoint l] by blast
  with a show "createWorktree ops useExistingFlag info startPoint (w, l)
        = (Some e,
           (if worktree_Exists ops (worktreePathOf ops info w) w'
            then os_RemoveAll ops (worktreePathOf ops info w) w' else w',
            l @ [CallExists (worktreePathOf ops info w),
                 CallGitQuiet (BranchExists_args (BranchName info)),
                 CallCreate (worktreePathOf ops info w) (BranchName info) startPoint,
                 CallExists (worktreePathOf ops info w)]
              @ (if worktree_Exists ops (worktreePathOf ops info w) w'
                 then [CallRemoveAll (worktreePathOf ops info w)] else [])))"
    by (simp add: createWorktree_step3_eq)
next
  assume a: "\<not> worktree_Exists ops (worktreePathOf ops info w) w
      \<and> git_RunQuiet ops (BranchExists_args (BranchName info)) w = None
      \<and> prompter_Select ops (branchPrompt (BranchName info)) options w = (Inr 0, w1)
      \<and> git_Command ops [''branch'', ''-D'', BranchName info] w1 = (None, w2)
      \<and> worktree_Create ops (worktreePathOf ops info w) (BranchName info) startPoint w2
          = (Some e, w')"
  then have s: "prompter_Select ops (branchPrompt (BranchName info)) options w = (Inr 0, w1)"
    by blast
  from createWorktree_prompt [OF _ _ s, of startPoint l] a
  show "createWorktree ops False info startPoint (w, l)
        = (Some e,
           (if worktree_Exists ops (worktreePathOf ops info w) w'
            then os_RemoveAll ops (worktreePathOf ops info w) w' else w',
            l @ [CallExists (worktreePathOf ops info w),
                 CallGitQuiet (BranchExists_args (BranchName info)),
                 CallSelect (branchPrompt (BranchName info)) options,
                 CallGit [''branch'', ''-D'', BranchName info],
                 CallCreate (worktreePathOf ops info w) (BranchName info) startPoint,
                 CallExists (worktreePathOf ops info w)]
              @ (if worktree_Exists ops (worktreePathOf ops info w) w'
                 then [CallRemoveAll (worktreePathOf ops info w)] else [])))"
    by (simp add: afterPrompt_def createWorktree_step3_eq)
qed

text \<open>
  The claim as stated fails: with a \<open>worktree.Create\<close> that creates the branch and then
  fails to register the worktree, the branch that was just created is still there after
  \<open>createWorktree\<close> has returned the error, on the no-conflict path and on the Overwrite
  path.
\<close>

theorem create_failure_counterexample:
  "''feature'' \<notin> branches (repo0\<lparr>failing := {RegisterWorktree}\<rparr>)
   \<and> fst (createWorktree sim False feature ''HEAD'' (repo0\<lparr>failing := {RegisterWorktree}\<rparr>, []))
       = Some (External ''registerWorktree failed'')
   \<and> ''feature'' \<in> branches (fst (snd (createWorktree sim False feature ''HEAD''
                                          (repo0\<lparr>failing := {RegisterWorktree}\<rparr>, []))))
   \<and> fst (createWorktree sim False feature ''HEAD''
            (taken\<lparr>selectAnswer := Inr 0, failing := {RegisterWorktree}\<rparr>, []))
       = Some (External ''registerWorktree failed'')
   \<and> ''feature'' \<in> branches (fst (snd (createWorktree sim False feature ''HEAD''
                  (taken\<lparr>selectAnswer := Inr 0, failing := {RegisterWorktree}\<rparr>, []))))"
  by (simp add: create_defs BranchDelete_args_eq taken_def sim_defs)

theorem create_failure_cleanup_witness:
  "createWorktree sim False feature ''HEAD'' (repo0\<lparr>failing := {RegisterWorktree}\<rparr>, [])
   = (Some (External ''registerWorktree failed''),
      (repo0\<lparr>failing := {RegisterWorktree}, branches := {''feature'', ''main''}\<rparr>,
       [CallExists ''/w/r/a'',
        CallGitQuiet [''show-ref'', ''--verify'', ''--quiet'', ''refs/heads/feature''],
        CallCreate ''/w/r/a'' ''feature'' ''HEAD'',
        CallExists ''/w/r/a'']))"
proof -
  let ?w = "repo0\<lparr>failing := {RegisterWorktree}\<rparr>"
  let ?w' = "repo0\<lparr>failing := {RegisterWorktree}, branches := {''feature'', ''main''}\<rparr>"
  have h: "\<not> worktree_Exists sim (worktreePathOf sim feature ?w) ?w
      \<and> git_RunQuiet sim (BranchExists_args (BranchName feature)) ?w \<noteq> None
      \<and> worktree_Create sim (worktreePathOf sim feature ?w) (BranchName feature) ''HEAD'' ?w
          = (Some (External ''registerWorktree failed''), ?w')"
    by (simp add: worktreePathOf_def sim_defs)
  show ?thesis
    using create_failure_cleanup [THEN conjunct1, rule_format, where ops = sim
        and info = feature and w = ?w and w' = ?w' and e = "External ''registerWorktree failed''"
        and startPoint = "''HEAD''" and useExistingFlag = False and l = "[]", OF h]
    by (simp add: worktreePathOf_def sim_defs)
qed

text \<open>
  Claim C10. Every branch deletion of the create flow is forced. The only git command
  \<open>createWorktree\<close> ever issues is \<open>git branch -D\<close> on the branch of the request, which is
  what \<open>git.BranchDelete\<close> runs when \<open>force\<close> is true (\<open>-d\<close> otherwise). In the earlier
  \<open>runCreate\<close>, the branch check deletes only with \<open>force = true\<close>, and an existing
  worktree and its branch are removed only with \<open>force = true\<close>.
\<close>

theorem branch_deletions_forced:
  "(\<forall>c \<in> set (snd (snd (createWorktree ops useExistingFlag info startPoint (w, [])))).
      \<forall>args. c = CallGit args \<longrightarrow> args = BranchDelete_args (BranchName info) True)
   \<and> BranchDelete_args branch True = [''branch'', ''-D'', branch]
   \<and> BranchDelete_args branch False = [''branch'', ''-d'', branch]
   \<and> BranchDelete ops branch True (w, l)
       = (fst (git_Command ops [''branch'', ''-D'', branch] w),
          (snd (git_Command ops [''branch'', ''-D'', branch] w),
           l @ [CallGit [''branch'', ''-D'', branch]]))
   \<and> (\<forall>c \<in> set (snd (snd (runCreate_branchCheck ops0 forceFlag useExistingFlag repoPath
                                branchName (v, [])))).
        \<forall>r x force. c = CallBranchDelete3 r x force \<longrightarrow> force)
   \<and> (\<forall>c \<in> set (snd (snd (runCreate_removeExisting ops0 repoPath worktreePath (v, [])))).
        \<forall>r p x force. c = CallRemove r p x force \<longrightarrow> force)"
proof (intro conjI ballI allI impI)
  fix c args
  assume "c \<in> set (snd (snd (createWorktree ops useExistingFlag info startPoint (w, []))))"
    and "c = CallGit args"
  then show "args = BranchDelete_args (BranchName info) True"
    by (simp add: createWorktree_git_calls BranchDelete_args_eq)
next
  show "BranchDelete_args branch True = [''branch'', ''-D'', branch]"
    by (simp add: BranchDelete_args_eq)
  show "BranchDelete_args branch False = [''branch'', ''-d'', branch]"
    by (simp add: BranchDelete_args_eq)
  show "BranchDelete ops branch True (w, l)
       = (fst (git_Command ops [''branch'', ''-D'', branch] w),
          (snd (git_Command ops [''branch'', ''-D'', branch] w),
           l @ [CallGit [''branch'', ''-D'', branch]]))"
    by (simp add: BranchDelete_eq)
next
  fix c r x force
  assume m: "c \<in> set (snd (snd (runCreate_branchCheck ops0 forceFlag useExistingFlag repoPath
                                branchName (v, []))))"
    and e: "c = CallBranchDelete3 r x force"
  from branchCheck_delete_calls [OF m e] show force by simp
next
  fix c r p x force
  assume m: "c \<in> set (snd (snd (runCreate_removeExisting ops0 repoPath worktreePath (v, []))))"
    and e: "c = CallRemove r p x force"
  from removeExisting_calls [OF m e] show force by simp
qed

theorem branch_deletions_forced_witness:
  "''feature'' \<in> unmerged taken
   \<and> fst (deleteBranch ''feature'' False taken) = Some (External ''deleteBranch failed'')
   \<and> createWorktree sim False feature ''HEAD'' (taken\<lparr>selectAnswer := Inr 0\<rparr>, [])
     = (None,
        (taken\<lparr>selectAnswer := Inr 0, branches := {''feature'', ''main''}, unmerged := {},
               registered := {''/w/r/a''}, dirs := {''/w/r/a''},
               head := (\<lambda>p. [])(''/w/r/a'' := ''feature'')\<rparr>,
         [CallExists ''/w/r/a'',
          CallGitQuiet [''show-ref'', ''--verify'', ''--quiet'', ''refs/heads/feature''],
          CallSelect (branchPrompt ''feature'') options,
          CallGit (BranchDelete_args ''feature'' True),
          CallCreate ''/w/r/a'' ''feature'' ''HEAD'']))
   \<and> BranchDelete_args ''feature'' True = [''branch'', ''-D'', ''feature'']"
proof -
  let ?w = "taken\<lparr>selectAnswer := Inr 0\<rparr>"
  have r: "createWorktree sim False feature ''HEAD'' (?w, [])
     = (None,
        (taken\<lparr>selectAnswer := Inr 0, branches := {''feature'', ''main''}, unmerged := {},
               registered := {''/w/r/a''}, dirs := {''/w/r/a''},
               head := (\<lambda>p. [])(''/w/r/a'' := ''feature'')\<rparr>,
         [CallExists ''/w/r/a'',
          CallGitQuiet [''show-ref'', ''--verify'', ''--quiet'', ''refs/heads/feature''],
          CallSelect (branchPrompt ''feature'') options,
          CallGit [''branch'', ''-D'', ''feature''],
          CallCreate ''/w/r/a'' ''feature'' ''HEAD'']))"
    by (simp add: create_defs BranchDelete_args_eq taken_def sim_defs)
  have m: "CallGit [''branch'', ''-D'', ''feature'']
           \<in> set (snd (snd (createWorktree sim False feature ''HEAD'' (?w, []))))"
    by (simp add: r)
  have d: "[''branch'', ''-D'', ''feature''] = BranchDelete_args (BranchName feature) True"
    using branch_deletions_forced [THEN conjunct1, rule_format, OF m, of "[''branch'', ''-D'', ''feature'']"]
    by simp
  have n: "BranchDelete_args (BranchName feature) True = BranchDelete_args ''feature'' True"
    by (simp add: feature_def)
  have u: "''feature'' \<in> unmerged taken
     \<and> fst (deleteBranch ''feature'' False taken) = Some (External ''deleteBranch failed'')"
    by (simp add: taken_def sim_defs)
  from r d n u show ?thesis by simp
qed

section \<open>DetermineWorktreeType and its patterns\<close>

text \<open>
  A compiled pattern is a term of Go's \<open>regexp/syntax\<close> operators over runes; a
  character class is a predicate on runes. The two patterns of
  \<open>DetermineWorktreeType\<close> are anchored by \<open>^\<close> and \<open>$\<close> and compiled without flags,
  so \<open>MatchString\<close> holds exactly when the whole text, read as runes, matches what
  stands between the anchors. Matching is by derivatives.
\<close>

datatype Regexp =
    OpNoMatch
  | OpEmptyMatch
  | OpCharClass "rune \<Rightarrow> bool"
  | OpConcat Regexp Regexp
  | OpAlternate Regexp Regexp
  | OpStar Regexp
  | OpPlus Regexp
  | OpQuest Regexp

fun nullable :: "Regexp \<Rightarrow> bool" where
  "nullable OpNoMatch = False"
| "nullable OpEmptyMatch = True"
| "nullable (OpCharClass P) = False"
| "nullable (OpConcat a b) = (nullable a \<and> nullable b)"
| "nullable (OpAlternate a b) = (nullable a \<or> nullable b)"
| "nullable (OpStar a) = True"
| "nullable (OpPlus a) = nullable a"
| "nullable (OpQuest a) = True"

fun deriv :: "rune \<Rightarrow> Regexp \<Rightarrow> Regexp" where
  "deriv c OpNoMatch = OpNoMatch"
| "deriv c OpEmptyMatch = OpNoMatch"
| "deriv c (OpCharClass P) = (if P c then OpEmptyMatch else OpNoMatch)"
| "deriv c (OpConcat a b) =
     (if nullable a then OpAlternate (OpConcat (deriv c a) b) (deriv c b)
      else OpConcat (deriv c a) b)"
| "deriv c (OpAlternate a b) = OpAlternate (deriv c a) (deriv c b)"
| "deriv c (OpStar a) = OpConcat (deriv c a) (OpStar a)"
| "deriv c (OpPlus a) = OpConcat (deriv c a) (OpStar a)"
| "deriv c (OpQuest a) = deriv c a"

fun matches :: "Regexp \<Rightarrow> rune list \<Rightarrow> bool" where
  "matches re [] = nullable re"
| "matches re (c # cs) = matches (deriv c re) cs"

definition MatchString :: "Regexp \<Rightarrow> string \<Rightarrow> bool" where
  "MatchString re s = matches re (runes s)"

fun lit :: "string \<Rightarrow> Regexp" where
  "lit [] = OpEmptyMatch"
| "lit (c # cs) = OpConcat (OpCharClass (\<lambda>r. r = of_char c)) (lit cs)"

text \<open>
  The pieces of the two patterns: \<open>[^/]\<close> is \<open>notSlash\<close> (a negated class also
  matches a newline), the digit class is \<open>digit\<close> (ASCII digits only), \<open>.\<close> is
  \<open>anyCharNotNL\<close>, \<open>+\<close> is \<open>OpPlus\<close>, \<open>(?:...)?\<close> is \<open>OpQuest\<close>,
  \<open>*\<close> is \<open>OpStar\<close>, and a run of literal characters is \<open>lit\<close>.
\<close>

definition notSlash :: "rune \<Rightarrow> bool" where
  "notSlash r = (r \<noteq> 0x2F)"

definition digit :: "rune \<Rightarrow> bool" where
  "digit r = (0x30 \<le> r \<and> r \<le> 0x39)"

definition anyCharNotNL :: "rune \<Rightarrow> bool" where
  "anyCharNotNL r = (r \<noteq> 0x0A)"

definition prPattern :: Regexp where
  "prPattern =
     OpConcat (lit ''/'')
      (OpConcat (OpPlus (OpCharClass notSlash))
       (OpConcat (lit ''/'')
        (OpConcat (OpPlus (OpCharClass notSlash))
         (OpConcat (lit ''/pull/'')
          (OpConcat (OpPlus (OpCharClass digit))
           (OpQuest (OpConcat (lit ''/'') (OpStar (OpCharClass anyCharNotNL)))))))))"

definition issuePattern :: Regexp where
  "issuePattern =
     OpConcat (lit ''/'')
      (OpConcat (OpPlus (OpCharClass notSlash))
       (OpConcat (lit ''/'')
        (OpConcat (OpPlus (OpCharClass notSlash))
         (OpConcat (lit ''/issues/'')
          (OpConcat (OpPlus (OpCharClass digit))
           (OpQuest (OpConcat (lit ''/'') (OpStar (OpCharClass anyCharNotNL)))))))))"

record URL =
  Scheme :: string
  Path :: string

definition DetermineWorktreeType ::
  "(string \<Rightarrow> error + URL) \<Rightarrow> string \<Rightarrow> WorktreeType \<times> error option" where
  "DetermineWorktreeType url_Parse input =
     (case url_Parse input of
        Inl err \<Rightarrow> (Local, None)
      | Inr u \<Rightarrow>
          if Scheme u = [] then (Local, None)
          else if Scheme u \<noteq> ''http'' \<and> Scheme u \<noteq> ''https'' then (Local, None)
          else if MatchString prPattern (Path u) then (PR, None)
          else if MatchString issuePattern (Path u) then (Issue, None)
          else (Local, None))"

subsection \<open>What the patterns match\<close>

inductive_set star :: "'a list set \<Rightarrow> 'a list set" for A :: "'a list set" where
  star_Nil: "[] \<in> star A"
| star_step: "u \<in> A \<Longrightarrow> v \<in> star A \<Longrightarrow> u @ v \<in> star A"

definition conc :: "'a list set \<Rightarrow> 'a list set \<Rightarrow> 'a list set" where
  "conc A B = {u @ v | u v. u \<in> A \<and> v \<in> B}"

fun lang :: "Regexp \<Rightarrow> rune list set" where
  "lang OpNoMatch = {}"
| "lang OpEmptyMatch = {[]}"
| "lang (OpCharClass P) = {[c] | c. P c}"
| "lang (OpConcat a b) = conc (lang a) (lang b)"
| "lang (OpAlternate a b) = lang a \<union> lang b"
| "lang (OpStar a) = star (lang a)"
| "lang (OpPlus a) = conc (lang a) (star (lang a))"
| "lang (OpQuest a) = insert [] (lang a)"

lemma Nil_in_conc: "[] \<in> conc A B \<longleftrightarrow> [] \<in> A \<and> [] \<in> B"
  by (auto simp: conc_def)

lemma nullable_lang: "nullable re \<longleftrightarrow> [] \<in> lang re"
  by (induction re) (auto simp: Nil_in_conc star_Nil)

lemma Cons_in_conc:
  "c # w \<in> conc A B \<longleftrightarrow>
     ([] \<in> A \<and> c # w \<in> B) \<or> (\<exists>u v. w = u @ v \<and> c # u \<in> A \<and> v \<in> B)"
proof
  assume "c # w \<in> conc A B"
  then obtain x y where xy: "c # w = x @ y" "x \<in> A" "y \<in> B" by (auto simp: conc_def)
  show "([] \<in> A \<and> c # w \<in> B) \<or> (\<exists>u v. w = u @ v \<and> c # u \<in> A \<and> v \<in> B)"
  proof (cases x)
    case Nil
    with xy show ?thesis by simp
  next
    case (Cons a u)
    with xy have "w = u @ y" "c # u \<in> A" by auto
    with xy show ?thesis by blast
  qed
next
  assume "([] \<in> A \<and> c # w \<in> B) \<or> (\<exists>u v. w = u @ v \<and> c # u \<in> A \<and> v \<in> B)"
  then show "c # w \<in> conc A B"
  proof
    assume "[] \<in> A \<and> c # w \<in> B"
    then have "[] @ (c # w) \<in> conc A B" unfolding conc_def by blast
    then show ?thesis by simp
  next
    assume "\<exists>u v. w = u @ v \<and> c # u \<in> A \<and> v \<in> B"
    then obtain u v where "w = u @ v" "c # u \<in> A" "v \<in> B" by blast
    then have "(c # u) @ v \<in> conc A B" unfolding conc_def by blast
    with \<open>w = u @ v\<close> show ?thesis by simp
  qed
qed

lemma Cons_in_star:
  "c # w \<in> star A \<longleftrightarrow> (\<exists>u v. w = u @ v \<and> c # u \<in> A \<and> v \<in> star A)"
proof
  assume "c # w \<in> star A"
  then show "\<exists>u v. w = u @ v \<and> c # u \<in> A \<and> v \<in> star A"
  proof (induction "c # w" rule: star.induct)
    case (star_step x y)
    show ?case
    proof (cases x)
      case Nil
      with star_step show ?thesis by simp
    next
      case (Cons a u)
      with star_step have "w = u @ y" "c # u \<in> A" by auto
      with star_step show ?thesis by blast
    qed
  qed
next
  assume "\<exists>u v. w = u @ v \<and> c # u \<in> A \<and> v \<in> star A"
  then obtain u v where "w = u @ v" "c # u \<in> A" "v \<in> star A" by blast
  then have "(c # u) @ v \<in> star A" by (intro star_step)
  with \<open>w = u @ v\<close> show "c # w \<in> star A" by simp
qed

lemma lang_deriv: "w \<in> lang (deriv c re) \<longleftrightarrow> c # w \<in> lang re"
proof (induction re arbitrary: w)
  case (OpConcat a b)
  then show ?case
    by (auto simp: Cons_in_conc nullable_lang) (auto simp: conc_def)
next
  case (OpStar a)
  then show ?case by (auto simp: Cons_in_star) (auto simp: conc_def)
next
  case (OpPlus a)
  then show ?case
    by (auto simp: Cons_in_conc Cons_in_star) (auto simp: conc_def)
qed auto

lemma matches_lang: "matches re w \<longleftrightarrow> w \<in> lang re"
  by (induction w arbitrary: re) (simp_all add: nullable_lang lang_deriv)

lemma lang_lit: "lang (lit s) = {map of_char s}"
  by (induction s) (auto simp: conc_def)

lemma star_class: "star {[c] | c. P c} = {w. \<forall>c \<in> set w. P c}"
proof (intro set_eqI iffI)
  fix w
  assume "w \<in> star {[c] | c. P c}"
  then show "w \<in> {w. \<forall>c \<in> set w. P c}"
    by (induction rule: star.induct) auto
next
  fix w
  assume "w \<in> {w. \<forall>c \<in> set w. P c}"
  then have "\<forall>c \<in> set w. P c" by simp
  then show "w \<in> star {[c] | c. P c}"
  proof (induction w)
    case Nil
    show ?case by (rule star_Nil)
  next
    case (Cons a w)
    then have "[a] \<in> {[c] | c. P c}" and "w \<in> star {[c] | c. P c}" by auto
    then have "[a] @ w \<in> star {[c] | c. P c}" by (rule star_step)
    then show ?case by simp
  qed
qed

lemma lang_plus_class:
  "lang (OpPlus (OpCharClass P)) = {w. w \<noteq> [] \<and> (\<forall>c \<in> set w. P c)}"
proof -
  have "conc {[c] | c. P c} {w. \<forall>c \<in> set w. P c} = {w. w \<noteq> [] \<and> (\<forall>c \<in> set w. P c)}"
  proof (intro set_eqI iffI)
    fix w
    assume "w \<in> conc {[c] | c. P c} {w. \<forall>c \<in> set w. P c}"
    then show "w \<in> {w. w \<noteq> [] \<and> (\<forall>c \<in> set w. P c)}" by (auto simp: conc_def)
  next
    fix w
    assume "w \<in> {w. w \<noteq> [] \<and> (\<forall>c \<in> set w. P c)}"
    then obtain a t where "w = [a] @ t" "P a" "\<forall>c \<in> set t. P c" by (cases w) auto
    then show "w \<in> conc {[c] | c. P c} {w. \<forall>c \<in> set w. P c}"
      unfolding conc_def by blast
  qed
  then show ?thesis by (simp add: star_class)
qed

lemma conc_single: "conc {x} B = {x @ v | v. v \<in> B}"
  by (auto simp: conc_def)

definition tailOK :: "rune list \<Rightarrow> bool" where
  "tailOK rest = (rest = [] \<or> (\<exists>t. rest = 0x2F # t \<and> 0x0A \<notin> set t))"

lemma lang_tail:
  "lang (OpQuest (OpConcat (lit ''/'') (OpStar (OpCharClass anyCharNotNL)))) = {t. tailOK t}"
  by (auto simp: lang_lit conc_single star_class tailOK_def anyCharNotNL_def)

lemma lit_conc:
  "w \<in> lang (OpConcat (lit s) R) \<longleftrightarrow> (\<exists>v. w = map of_char s @ v \<and> v \<in> lang R)"
  by (auto simp: lang_lit conc_def)

lemma plus_conc:
  "w \<in> lang (OpConcat (OpPlus (OpCharClass P)) R)
     \<longleftrightarrow> (\<exists>u v. w = u @ v \<and> u \<noteq> [] \<and> (\<forall>c \<in> set u. P c) \<and> v \<in> lang R)"
proof -
  have "lang (OpConcat (OpPlus (OpCharClass P)) R)
        = conc {w. w \<noteq> [] \<and> (\<forall>c \<in> set w. P c)} (lang R)"
    unfolding lang.simps(4) lang_plus_class ..
  then show ?thesis by (auto simp: conc_def)
qed

lemma lang_pattern:
  "w \<in> lang (OpConcat (lit ''/'')
      (OpConcat (OpPlus (OpCharClass notSlash))
       (OpConcat (lit ''/'')
        (OpConcat (OpPlus (OpCharClass notSlash))
         (OpConcat (lit (CHR ''/'' # kind @ ''/''))
          (OpConcat (OpPlus (OpCharClass digit)) T))))))
   \<longleftrightarrow> (\<exists>owner repo digits rest.
        w = 0x2F # owner @ 0x2F # repo @ 0x2F # map of_char kind @ 0x2F # digits @ rest
        \<and> owner \<noteq> [] \<and> 0x2F \<notin> set owner \<and> repo \<noteq> [] \<and> 0x2F \<notin> set repo
        \<and> digits \<noteq> [] \<and> (\<forall>d \<in> set digits. 0x30 \<le> d \<and> d \<le> 0x39) \<and> rest \<in> lang T)"
  by (simp only: lit_conc plus_conc, simp add: notSlash_def digit_def,
      rule iffI; (elim exE conjE)?; fast)

text \<open>
  The form of path the two patterns accept, in words: a slash, an owner, a slash, a
  repository, then \<open>/pull/\<close> or \<open>/issues/\<close>, then digits, and after the digits either
  nothing or a slash followed by anything on the same line. Owner and repository are
  non-empty and have no slash; the digits are one or more of 0 to 9.
\<close>

definition pathForm :: "string \<Rightarrow> rune list \<Rightarrow> bool" where
  "pathForm kind w \<longleftrightarrow>
     (\<exists>owner repo digits rest.
        w = 0x2F # owner @ 0x2F # repo @ 0x2F # map of_char kind @ 0x2F # digits @ rest
        \<and> owner \<noteq> [] \<and> 0x2F \<notin> set owner \<and> repo \<noteq> [] \<and> 0x2F \<notin> set repo
        \<and> digits \<noteq> [] \<and> (\<forall>d \<in> set digits. 0x30 \<le> d \<and> d \<le> 0x39) \<and> tailOK rest)"

lemma MatchString_prPattern: "MatchString prPattern s \<longleftrightarrow> pathForm ''pull'' (runes s)"
proof -
  have e: "''/pull/'' = CHR ''/'' # ''pull'' @ ''/''" by simp
  show ?thesis
    unfolding MatchString_def matches_lang prPattern_def pathForm_def e
    by (simp only: lang_pattern lang_tail mem_Collect_eq)
qed

lemma MatchString_issuePattern: "MatchString issuePattern s \<longleftrightarrow> pathForm ''issues'' (runes s)"
proof -
  have e: "''/issues/'' = CHR ''/'' # ''issues'' @ ''/''" by simp
  show ?thesis
    unfolding MatchString_def matches_lang issuePattern_def pathForm_def e
    by (simp only: lang_pattern lang_tail mem_Collect_eq)
qed

lemma segment_unique:
  "x \<notin> set u \<Longrightarrow> x \<notin> set u' \<Longrightarrow> u @ x # v = u' @ x # v' \<Longrightarrow> u = u' \<and> v = v'"
proof (induction u arbitrary: u')
  case Nil
  then show ?case by (cases u') auto
next
  case (Cons a u)
  then show ?case by (cases u') auto
qed

lemma pathForm_disjoint:
  assumes "pathForm ''pull'' w"
  shows "\<not> pathForm ''issues'' w"
proof
  assume "pathForm ''issues'' w"
  then obtain o2 r2 d2 t2 where
    b: "w = 0x2F # o2 @ 0x2F # r2 @ 0x2F # map of_char ''issues'' @ 0x2F # d2 @ t2"
       "0x2F \<notin> set o2" "0x2F \<notin> set r2"
    unfolding pathForm_def by blast
  from assms obtain o1 r1 d1 t1 where
    a: "w = 0x2F # o1 @ 0x2F # r1 @ 0x2F # map of_char ''pull'' @ 0x2F # d1 @ t1"
       "0x2F \<notin> set o1" "0x2F \<notin> set r1"
    unfolding pathForm_def by blast
  from a(1) b(1) have
    "o1 @ 0x2F # (r1 @ 0x2F # map of_char ''pull'' @ 0x2F # d1 @ t1)
     = o2 @ 0x2F # (r2 @ 0x2F # map of_char ''issues'' @ 0x2F # d2 @ t2)"
    by simp
  from segment_unique [OF a(2) b(2) this] have
    "r1 @ 0x2F # (map of_char ''pull'' @ 0x2F # d1 @ t1)
     = r2 @ 0x2F # (map of_char ''issues'' @ 0x2F # d2 @ t2)"
    by simp
  from segment_unique [OF a(3) b(3) this] show False by simp
qed

text \<open>
  The results of \<open>url.Parse\<close> of the Go library on the inputs of the examples below:
  the scheme in lower case and the path with its percent escapes decoded. Every input
  outside the table counts as rejected; the one used below, \<open>:x\<close>, is rejected by
  \<open>url.Parse\<close> with "missing protocol scheme".
\<close>

definition exampleParse :: "string \<Rightarrow> error + URL" where
  "exampleParse s =
     (if s = ''https://github.com/o/r/pull/12''
        then Inr \<lparr>Scheme = ''https'', Path = ''/o/r/pull/12''\<rparr>
      else if s = ''https://github.com/o/r/pull/12/files''
        then Inr \<lparr>Scheme = ''https'', Path = ''/o/r/pull/12/files''\<rparr>
      else if s = ''https://github.com/o/r/pull/12abc''
        then Inr \<lparr>Scheme = ''https'', Path = ''/o/r/pull/12abc''\<rparr>
      else if s = ''https://github.com/o/r/pull/12/a%0Ab''
        then Inr \<lparr>Scheme = ''https'', Path = ''/o/r/pull/12/a'' @ [CHR 0x0A] @ ''b''\<rparr>
      else if s = ''http://github.com/o/r/issues/7''
        then Inr \<lparr>Scheme = ''http'', Path = ''/o/r/issues/7''\<rparr>
      else if s = ''ftp://github.com/o/r/pull/12''
        then Inr \<lparr>Scheme = ''ftp'', Path = ''/o/r/pull/12''\<rparr>
      else if s = ''feature/x''
        then Inr \<lparr>Scheme = [], Path = ''feature/x''\<rparr>
      else Inl (External ''missing protocol scheme''))"

text \<open>
  Claim C9, as amended. \<open>DetermineWorktreeType\<close> never returns an error. It returns PR
  exactly for the inputs that \<open>url.Parse\<close> accepts with scheme http or https and a path
  of the form \<open>/<owner>/<repo>/pull/<digits>\<close>, alone or followed by a slash and any
  characters other than a newline; Issue exactly for such inputs with \<open>issues\<close> in
  place of \<open>pull\<close>; and Local for every other input, among them the inputs
  \<open>url.Parse\<close> rejects and those with another scheme or none. \<open>url.Parse\<close> is a
  parameter.
\<close>

theorem DetermineWorktreeType_spec:
  "snd (DetermineWorktreeType url_Parse input) = None
   \<and> (fst (DetermineWorktreeType url_Parse input) = PR \<longleftrightarrow>
        (\<exists>u. url_Parse input = Inr u \<and> (Scheme u = ''http'' \<or> Scheme u = ''https'')
             \<and> pathForm ''pull'' (runes (Path u))))
   \<and> (fst (DetermineWorktreeType url_Parse input) = Issue \<longleftrightarrow>
        (\<exists>u. url_Parse input = Inr u \<and> (Scheme u = ''http'' \<or> Scheme u = ''https'')
             \<and> pathForm ''issues'' (runes (Path u))))
   \<and> (fst (DetermineWorktreeType url_Parse input) = Local \<longleftrightarrow>
        \<not> (\<exists>u. url_Parse input = Inr u \<and> (Scheme u = ''http'' \<or> Scheme u = ''https'')
                \<and> (pathForm ''pull'' (runes (Path u)) \<or> pathForm ''issues'' (runes (Path u)))))"
proof (cases "url_Parse input")
  case (Inl err)
  then show ?thesis by (simp add: DetermineWorktreeType_def)
next
  case (Inr u)
  show ?thesis
  proof (cases "Scheme u = ''http'' \<or> Scheme u = ''https''")
    case False
    with Inr show ?thesis by (auto simp add: DetermineWorktreeType_def)
  next
    case True
    then have ne: "Scheme u \<noteq> []" by auto
    show ?thesis
    proof (cases "pathForm ''pull'' (runes (Path u))")
      case pull: True
      then have "\<not> pathForm ''issues'' (runes (Path u))" by (rule pathForm_disjoint)
      with Inr True ne pull show ?thesis
        by (simp add: DetermineWorktreeType_def MatchString_prPattern)
    next
      case pull: False
      with Inr True ne show ?thesis
        by (simp add: DetermineWorktreeType_def MatchString_prPattern MatchString_issuePattern)
    qed
  qed
qed

text \<open>
  The claim as stated fails whichever way "matches \<open>/<owner>/<repo>/pull/<digits>\<close>" is
  read. A path that continues after the digits with \<open>/files\<close> is not of that form and
  gives PR. A path that only begins with that form, the digits followed by letters, gives
  Local. And a path that continues with a segment holding a newline (\<open>%0A\<close> in the
  input) gives Local as well.
\<close>

theorem DetermineWorktreeType_counterexample:
  "fst (DetermineWorktreeType exampleParse ''https://github.com/o/r/pull/12/files'') = PR
   \<and> fst (DetermineWorktreeType exampleParse ''https://github.com/o/r/pull/12abc'') = Local
   \<and> fst (DetermineWorktreeType exampleParse ''https://github.com/o/r/pull/12/a%0Ab'') = Local"
  by code_simp

theorem DetermineWorktreeType_spec_witness:
  "DetermineWorktreeType exampleParse ''https://github.com/o/r/pull/12'' = (PR, None)
   \<and> pathForm ''pull'' (runes ''/o/r/pull/12'')
   \<and> DetermineWorktreeType exampleParse ''http://github.com/o/r/issues/7'' = (Issue, None)
   \<and> DetermineWorktreeType exampleParse ''ftp://github.com/o/r/pull/12'' = (Local, None)
   \<and> DetermineWorktreeType exampleParse ''feature/x'' = (Local, None)
   \<and> DetermineWorktreeType exampleParse '':x'' = (Local, None)"
proof -
  have a: "DetermineWorktreeType exampleParse ''https://github.com/o/r/pull/12'' = (PR, None)"
    by code_simp
  then have "fst (DetermineWorktreeType exampleParse ''https://github.com/o/r/pull/12'') = PR"
    by simp
  then obtain u where
    u: "exampleParse ''https://github.com/o/r/pull/12'' = Inr u"
       "pathForm ''pull'' (runes (Path u))"
    using DetermineWorktreeType_spec [of exampleParse "''https://github.com/o/r/pull/12''"]
    by blast
  from u(1) have "Path u = ''/o/r/pull/12''" by (auto simp add: exampleParse_def)
  with u(2) have b: "pathForm ''pull'' (runes ''/o/r/pull/12'')" by simp
  have c: "DetermineWorktreeType exampleParse ''http://github.com/o/r/issues/7'' = (Issue, None)"
    by code_simp
  have d: "DetermineWorktreeType exampleParse ''ftp://github.com/o/r/pull/12'' = (Local, None)"
    by code_simp
  have e: "DetermineWorktreeType exampleParse ''feature/x'' = (Local, None)"
    by code_simp
  have f: "DetermineWorktreeType exampleParse '':x'' = (Local, None)"
    by code_simp
  from a b c d e f show ?thesis by blast
qed

end
